theory Spec2Isabelle
  imports Complex_Main "HOL-Library.Word"
begin

unbundle bit_operations_syntax

section \<open>Values and errors\<close>

text \<open>
  The notebook \<open>io.ipynb\<close> works on NumPy arrays of 64-bit floats. Array elements are
  modelled by \<open>fl\<close>: a finite value carries an exact real, and the three special values
  of IEEE arithmetic are constructors of their own. Rounding, overflow and the sign of
  zero are not modelled; every theorem below is about exact arithmetic on the finite
  values together with the special-value rules.
\<close>

datatype fl = Fin real | PInf | NInf | NaN

datatype py_error = ValueError | TypeError | IndexError | AxisError | LinAlgError

fun isnan :: "fl \<Rightarrow> bool" where
  "isnan NaN = True"
| "isnan _ = False"

fun fl_add :: "fl \<Rightarrow> fl \<Rightarrow> fl" where
  "fl_add NaN _ = NaN"
| "fl_add _ NaN = NaN"
| "fl_add PInf NInf = NaN"
| "fl_add NInf PInf = NaN"
| "fl_add PInf _ = PInf"
| "fl_add _ PInf = PInf"
| "fl_add NInf _ = NInf"
| "fl_add _ NInf = NInf"
| "fl_add (Fin a) (Fin b) = Fin (a + b)"

definition fl_inf :: "bool \<Rightarrow> fl" where
  "fl_inf positive = (if positive then PInf else NInf)"

fun fl_mul :: "fl \<Rightarrow> fl \<Rightarrow> fl" where
  "fl_mul NaN _ = NaN"
| "fl_mul _ NaN = NaN"
| "fl_mul (Fin a) (Fin b) = Fin (a * b)"
| "fl_mul (Fin a) PInf = (if a = 0 then NaN else fl_inf (0 < a))"
| "fl_mul (Fin a) NInf = (if a = 0 then NaN else fl_inf (a < 0))"
| "fl_mul PInf (Fin b) = (if b = 0 then NaN else fl_inf (0 < b))"
| "fl_mul NInf (Fin b) = (if b = 0 then NaN else fl_inf (b < 0))"
| "fl_mul PInf PInf = PInf"
| "fl_mul NInf NInf = PInf"
| "fl_mul PInf NInf = NInf"
| "fl_mul NInf PInf = NInf"

fun fl_div :: "fl \<Rightarrow> fl \<Rightarrow> fl" where
  "fl_div NaN _ = NaN"
| "fl_div _ NaN = NaN"
| "fl_div (Fin a) (Fin b) =
     (if b = 0 then (if a = 0 then NaN else fl_inf (0 < a)) else Fin (a / b))"
| "fl_div (Fin a) PInf = Fin 0"
| "fl_div (Fin a) NInf = Fin 0"
| "fl_div PInf (Fin b) = fl_inf (0 \<le> b)"
| "fl_div NInf (Fin b) = fl_inf (b < 0)"
| "fl_div PInf PInf = NaN"
| "fl_div PInf NInf = NaN"
| "fl_div NInf PInf = NaN"
| "fl_div NInf NInf = NaN"


text \<open>\<open>np.sum\<close> of a flat sequence of floats; the empty sum is \<open>0.0\<close>.\<close>

definition fl_sum :: "fl list \<Rightarrow> fl" where
  "fl_sum xs = foldr fl_add xs (Fin 0)"

text \<open>Running a fallible step over a list stops at the first error, as an exception does.\<close>

fun sequence_sum :: "('e + 'a) list \<Rightarrow> 'e + 'a list" where
  "sequence_sum [] = Inr []"
| "sequence_sum (r # rs) =
     (case r of
        Inl e \<Rightarrow> Inl e
      | Inr x \<Rightarrow> (case sequence_sum rs of Inl e \<Rightarrow> Inl e | Inr xs \<Rightarrow> Inr (x # xs)))"

section \<open>Spectral subsets (cell 19)\<close>

text \<open>
  \<^verbatim>\<open>subset_edges = np.linspace(wavelength.min(), wavelength.max(), n_subsets + 1)\<close>
  \<^verbatim>\<open>subset_bounds = [subset_edges[i:i+2].to(u.um).value for i in range(n_subsets)]\<close>

  \<open>np.linspace start stop num\<close> with the default \<open>endpoint=True\<close>: the samples
  \<open>start + i * step\<close> with \<open>step = (stop - start) / (num - 1)\<close>, the last one
  overwritten by \<open>stop\<close>. \<open>min\<close> and \<open>max\<close> of an empty array raise \<open>ValueError\<close>.
  The wavelengths are taken in microns already, so the unit conversion is the identity.
\<close>

definition linspace :: "real \<Rightarrow> real \<Rightarrow> nat \<Rightarrow> real list" where
  "linspace start stop num =
     (if num = 0 then []
      else if num = 1 then [start]
      else map (\<lambda>i. start + real i * ((stop - start) / real (num - 1))) [0..<num - 1] @ [stop])"

definition array_min :: "real list \<Rightarrow> py_error + real" where
  "array_min ws = (case ws of [] \<Rightarrow> Inl ValueError | w # rest \<Rightarrow> Inr (fold min rest w))"

definition array_max :: "real list \<Rightarrow> py_error + real" where
  "array_max ws = (case ws of [] \<Rightarrow> Inl ValueError | w # rest \<Rightarrow> Inr (fold max rest w))"

definition subset_edges :: "real list \<Rightarrow> nat \<Rightarrow> py_error + real list" where
  "subset_edges wavelength n_subsets =
     (case array_min wavelength of
        Inl e \<Rightarrow> Inl e
      | Inr lo \<Rightarrow>
          (case array_max wavelength of
             Inl e \<Rightarrow> Inl e
           | Inr hi \<Rightarrow> Inr (linspace lo hi (n_subsets + 1))))"

definition subset_bounds :: "real list \<Rightarrow> nat \<Rightarrow> real list list" where
  "subset_bounds edges n_subsets = map (\<lambda>i. take 2 (drop i edges)) [0..<n_subsets]"

text \<open>
  \<^verbatim>\<open>XRangeROI(*limits)\<close>: a range of interest on the spectral axis, built from the two
  entries of one element of \<open>subset_bounds\<close>. Any other number of entries is not a
  range the viewer can apply and is reported as \<open>TypeError\<close>.
\<close>

record roi =
  roi_min :: real
  roi_max :: real

definition XRangeROI :: "real list \<Rightarrow> py_error + roi" where
  "XRangeROI limits =
     (case limits of
        [lo, hi] \<Rightarrow> Inr \<lparr>roi_min = lo, roi_max = hi\<rparr>
      | _ \<Rightarrow> Inl TypeError)"

text \<open>
  The loop of cell 19 applies one range per entry of \<open>subset_bounds\<close>, in order; every
  band goes through the same call, the last one included.
\<close>

definition bands :: "real list \<Rightarrow> nat \<Rightarrow> py_error + roi list" where
  "bands wavelength n_subsets =
     (case subset_edges wavelength n_subsets of
        Inl e \<Rightarrow> Inl e
      | Inr edges \<Rightarrow> sequence_sum (map XRangeROI (subset_bounds edges n_subsets)))"

text \<open>
  \<^verbatim>\<open>spectrum_viewer.apply_roi(XRangeROI(*limits))\<close> turns the range into the viewer
  library's range subset, whose mask is \<open>(x >= lo) & (x <= hi)\<close>: closed at both ends.
\<close>

definition band_selects :: "roi \<Rightarrow> real \<Rightarrow> bool" where
  "band_selects r w = (roi_min r \<le> w \<and> w \<le> roi_max r)"

section \<open>Arrays, masked arrays and sub-cubes\<close>

text \<open>
  A NumPy array is its shape together with its elements by index; reads are only made
  inside the shape. A masked-array element is a value with its mask flag (\<open>True\<close>
  means masked). An \<open>NDDataArray\<close> carries a data array and a mask array of the same
  shape; the physical unit multiplies no value and is left out.
\<close>

record 'a ndarray2 =
  shape2 :: "nat \<times> nat"
  at2 :: "nat \<Rightarrow> nat \<Rightarrow> 'a"

record 'a ndarray3 =
  shape3 :: "nat \<times> nat \<times> nat"
  at3 :: "nat \<Rightarrow> nat \<Rightarrow> nat \<Rightarrow> 'a"

type_synonym melt = "fl \<times> bool"

record nddata3 =
  nd_data :: "fl ndarray3"
  nd_mask :: "bool ndarray3"



section \<open>Collapsing a band (cell 23)\<close>

text \<open>
  \<^verbatim>\<open>masked_quantity = Masked(band.data << band.unit, mask=band.mask)\<close>
  \<^verbatim>\<open>collapsed_image = np.ma.sum(masked_quantity, axis=dispersion_axis)\<close>
  \<^verbatim>\<open>nddata = NDDataArray(collapsed_image.T, wcs=force_wcs)\<close>

  The masked sum fills the masked entries with zero, adds everything up, and masks the
  result where every entry along the axis was masked. An axis beyond the last raises.
\<close>

definition Masked :: "nddata3 \<Rightarrow> melt ndarray3" where
  "Masked band =
     \<lparr>shape3 = shape3 (nd_data band),
      at3 = (\<lambda>i j k. (at3 (nd_data band) i j k, at3 (nd_mask band) i j k))\<rparr>"

definition filled0 :: "melt \<Rightarrow> fl" where
  "filled0 e = (if snd e then Fin 0 else fst e)"

definition ma_sum_reduce :: "melt list \<Rightarrow> melt" where
  "ma_sum_reduce es = (fl_sum (map filled0 es), list_all snd es)"

definition reduce_axis ::
  "(melt list \<Rightarrow> melt) \<Rightarrow> melt ndarray3 \<Rightarrow> nat \<Rightarrow> py_error + melt ndarray2" where
  "reduce_axis f a axis =
     (case shape3 a of
        (n0, n1, n2) \<Rightarrow>
          if axis = 0 then
            Inr \<lparr>shape2 = (n1, n2), at2 = (\<lambda>j k. f (map (\<lambda>i. at3 a i j k) [0..<n0]))\<rparr>
          else if axis = 1 then
            Inr \<lparr>shape2 = (n0, n2), at2 = (\<lambda>i k. f (map (\<lambda>j. at3 a i j k) [0..<n1]))\<rparr>
          else if axis = 2 then
            Inr \<lparr>shape2 = (n0, n1), at2 = (\<lambda>i j. f (map (\<lambda>k. at3 a i j k) [0..<n2]))\<rparr>
          else Inl AxisError)"

definition np_ma_sum :: "melt ndarray3 \<Rightarrow> nat \<Rightarrow> py_error + melt ndarray2" where
  "np_ma_sum a axis = reduce_axis ma_sum_reduce a axis"

definition transpose2 :: "'a ndarray2 \<Rightarrow> 'a ndarray2" where
  "transpose2 a =
     \<lparr>shape2 = (snd (shape2 a), fst (shape2 a)), at2 = (\<lambda>i j. at2 a j i)\<rparr>"

text \<open>
  The celestial coordinate mapping sends a pixel position to a sky position.
  \<^verbatim>\<open>wcs_celestial.swapaxes(1, 0)\<close> exchanges the two axes of the mapping, on the pixel
  side and on the sky side.
\<close>

type_synonym wcs = "real \<times> real \<Rightarrow> real \<times> real"

definition wcs_swapaxes :: "wcs \<Rightarrow> wcs" where
  "wcs_swapaxes w = (\<lambda>(p, q). prod.swap (w (q, p)))"

record image2d =
  img :: "melt ndarray2"
  img_wcs :: wcs

definition collapse_with :: "nat \<Rightarrow> nddata3 \<Rightarrow> wcs \<Rightarrow> py_error + image2d" where
  "collapse_with dispersion_axis band force_wcs =
     (case np_ma_sum (Masked band) dispersion_axis of
        Inl e \<Rightarrow> Inl e
      | Inr collapsed_image \<Rightarrow>
          Inr \<lparr>img = transpose2 collapsed_image, img_wcs = force_wcs\<rparr>)"

text \<open>\<^verbatim>\<open>collapse(band)\<close> with the default \<^verbatim>\<open>force_wcs=wcs_celestial.swapaxes(1, 0)\<close>.\<close>

definition collapse :: "wcs \<Rightarrow> nat \<Rightarrow> nddata3 \<Rightarrow> py_error + image2d" where
  "collapse wcs_celestial dispersion_axis band =
     collapse_with dispersion_axis band (wcs_swapaxes wcs_celestial)"

text \<open>
  Modelled from the spec: the arithmetic-mean reduction of the Spatial Collapser. The
  notebook leaves the mean images to an exercise cell; \<open>collapse\<close> itself only sums.
  The mean divides the sum of the unmasked entries by their number and is masked where
  every entry on the axis is masked.
\<close>

definition ma_mean_reduce :: "melt list \<Rightarrow> melt" where
  "ma_mean_reduce es =
     (fl_div (fl_sum (map filled0 es)) (Fin (real (length (filter (\<lambda>e. \<not> snd e) es)))),
      list_all snd es)"

text \<open>
  Modelled from the spec: the Spatial Collapser with the mean as its reduction. It is
  \<open>collapse\<close> with the masked mean in place of the masked sum.
\<close>

definition collapse_mean :: "wcs \<Rightarrow> nat \<Rightarrow> nddata3 \<Rightarrow> py_error + image2d" where
  "collapse_mean wcs_celestial dispersion_axis band =
     (case reduce_axis ma_mean_reduce (Masked band) dispersion_axis of
        Inl e \<Rightarrow> Inl e
      | Inr collapsed_image \<Rightarrow>
          Inr \<lparr>img = transpose2 collapsed_image, img_wcs = wcs_swapaxes wcs_celestial\<rparr>)"

text \<open>
  Reading one element of a masked array gives the \<open>masked\<close> constant (\<open>None\<close>) when
  its flag is set, and the number otherwise. The unmasked samples of one spatial pixel
  of a band are listed by \<open>valid_samples\<close>.
\<close>

definition ma_item :: "melt \<Rightarrow> fl option" where
  "ma_item e = (if snd e then None else Some (fst e))"

definition valid_samples :: "nddata3 \<Rightarrow> nat \<Rightarrow> nat \<Rightarrow> fl list" where
  "valid_samples band i j =
     map (\<lambda>k. at3 (nd_data band) i j k)
       (filter (\<lambda>k. \<not> at3 (nd_mask band) i j k) [0..<snd (snd (shape3 (nd_data band)))])"

section \<open>Masking and the masked spectrum (cell 33)\<close>

text \<open>
  \<^verbatim>\<open>mask = bitfield_to_boolean_mask(mask_nddata.data.astype(int)) | mask_nddata.mask | np.isnan(source_spectrum.data)\<close>
  \<^verbatim>\<open>source_spectrum.mask = mask\<close>

  With its default arguments (\<open>ignore_flags=0\<close>, \<open>good_mask_value=False\<close>) the bit-field
  conversion ANDs every 64-bit flag word with the complement of the ignored bits and
  marks the element bad when the result is not zero. The data-quality array is taken
  after \<open>astype(int)\<close>.
\<close>

definition bitfield_to_boolean_mask :: "64 word \<Rightarrow> bool" where
  "bitfield_to_boolean_mask bitfield = (bitfield AND NOT 0 \<noteq> 0)"

record dq_nddata =
  dq_data :: "64 word ndarray3"
  dq_mask :: "bool ndarray3"

definition combined_mask :: "nddata3 \<Rightarrow> dq_nddata \<Rightarrow> bool ndarray3" where
  "combined_mask source_spectrum mask_nddata =
     \<lparr>shape3 = shape3 (nd_data source_spectrum),
      at3 = (\<lambda>i j k.
               bitfield_to_boolean_mask (at3 (dq_data mask_nddata) i j k)
               \<or> at3 (dq_mask mask_nddata) i j k
               \<or> isnan (at3 (nd_data source_spectrum) i j k))\<rparr>"

definition combine_masks :: "nddata3 \<Rightarrow> dq_nddata \<Rightarrow> nddata3" where
  "combine_masks source_spectrum mask_nddata =
     source_spectrum\<lparr>nd_mask := combined_mask source_spectrum mask_nddata\<rparr>"

text \<open>
  \<^verbatim>\<open>masked_spec = source_spectrum.data\<close>
  \<^verbatim>\<open>masked_spec[source_spectrum.mask] = np.nan\<close>

  \<open>masked_spec\<close> is the data array itself, not a copy: the assignment overwrites the
  masked elements of \<open>source_spectrum.data\<close> in place.
\<close>

definition nan_fill :: "nddata3 \<Rightarrow> nddata3" where
  "nan_fill source_spectrum =
     source_spectrum
       \<lparr>nd_data :=
          \<lparr>shape3 = shape3 (nd_data source_spectrum),
           at3 = (\<lambda>i j k. if at3 (nd_mask source_spectrum) i j k then NaN
                           else at3 (nd_data source_spectrum) i j k)\<rparr>\<rparr>"

text \<open>
  \<^verbatim>\<open>count = np.sum(~np.isnan(masked_spec), axis=(0, 1))\<close>
  \<^verbatim>\<open>masked_spectrum_flux = np.nansum(source_spectrum.data, axis=(0, 1)) * source_spectrum.unit * (count.max() / count)\<close>

  Both reductions run over the two spatial axes and leave one number per wavelength.
  The spaxels are listed row by row. \<open>np.nansum\<close> replaces NaN by zero before adding. \<open>count.max() / count\<close> is the true
  division of integers as floats: a positive count over zero is \<open>inf\<close>, zero over zero
  is NaN. \<open>max\<close> of an empty array raises.
\<close>

definition pixel_indices :: "nat \<Rightarrow> nat \<Rightarrow> (nat \<times> nat) list" where
  "pixel_indices n0 n1 = List.product [0..<n0] [0..<n1]"

definition spaxels_at :: "'a ndarray3 \<Rightarrow> nat \<Rightarrow> 'a list" where
  "spaxels_at a k =
     (case shape3 a of
        (n0, n1, n2) \<Rightarrow> map (\<lambda>(i, j). at3 a i j k) (pixel_indices n0 n1))"

definition count_valid :: "fl ndarray3 \<Rightarrow> nat list" where
  "count_valid masked_spec =
     map (\<lambda>k. length (filter (\<lambda>x. \<not> isnan x) (spaxels_at masked_spec k)))
       [0..<snd (snd (shape3 masked_spec))]"

definition nan_to_zero :: "fl \<Rightarrow> fl" where
  "nan_to_zero x = (if isnan x then Fin 0 else x)"

definition np_nansum :: "fl ndarray3 \<Rightarrow> fl list" where
  "np_nansum a =
     map (\<lambda>k. fl_sum (map nan_to_zero (spaxels_at a k))) [0..<snd (snd (shape3 a))]"

definition count_max :: "nat list \<Rightarrow> py_error + nat" where
  "count_max cs = (case cs of [] \<Rightarrow> Inl ValueError | c # rest \<Rightarrow> Inr (fold max rest c))"

definition true_divide :: "nat \<Rightarrow> nat \<Rightarrow> fl" where
  "true_divide a b = fl_div (Fin (real a)) (Fin (real b))"

text \<open>
  The spaxels of slice \<open>k\<close> that the combined mask leaves valid, by their data values,
  in the row-by-row order of the two spatial axes.
\<close>

definition valid_spaxels :: "nddata3 \<Rightarrow> dq_nddata \<Rightarrow> nat \<Rightarrow> fl list" where
  "valid_spaxels source_spectrum mask_nddata k =
     (case shape3 (nd_data source_spectrum) of
        (n0, n1, n2) \<Rightarrow>
          map (\<lambda>(i, j). at3 (nd_data source_spectrum) i j k)
            (filter (\<lambda>(i, j). \<not> at3 (combined_mask source_spectrum mask_nddata) i j k)
               (pixel_indices n0 n1)))"

definition masked_spectrum_flux :: "nddata3 \<Rightarrow> dq_nddata \<Rightarrow> py_error + fl list" where
  "masked_spectrum_flux source_spectrum mask_nddata =
     (let masked_spec = nd_data (nan_fill (combine_masks source_spectrum mask_nddata));
          count = count_valid masked_spec
      in case count_max count of
           Inl e \<Rightarrow> Inl e
         | Inr cmax \<Rightarrow>
             Inr (map (\<lambda>(s, c). fl_mul s (true_divide cmax c))
                    (zip (np_nansum masked_spec) count)))"

section \<open>Centre of light per wavelength (cell 41)\<close>

text \<open>
  \<^verbatim>\<open>source_spectrum_ma = np.swapaxes(np.asanyarray(source_spectrum), 1, 0)\<close>

  The masked-array view of \<open>source_spectrum\<close> with its first two axes exchanged. It
  shares the data array, so it sees the NaN written by \<open>nan_fill\<close>.
\<close>

definition source_spectrum_ma :: "nddata3 \<Rightarrow> melt ndarray3" where
  "source_spectrum_ma source_spectrum =
     (case shape3 (nd_data source_spectrum) of
        (n0, n1, n2) \<Rightarrow>
          \<lparr>shape3 = (n1, n0, n2),
           at3 = (\<lambda>i j k. (at3 (nd_data source_spectrum) j i k,
                            at3 (nd_mask source_spectrum) j i k))\<rparr>)"

text \<open>One element of \<^verbatim>\<open>source_spectrum_ma.transpose(2, 0, 1)\<close>: the image at wavelength \<open>k\<close>.\<close>

definition wl_slice :: "melt ndarray3 \<Rightarrow> nat \<Rightarrow> melt ndarray2" where
  "wl_slice ma k =
     (case shape3 ma of (m0, m1, m2) \<Rightarrow> \<lparr>shape2 = (m0, m1), at2 = (\<lambda>i j. at3 ma i j k)\<rparr>)"





section \<open>Spectral slope per pixel (cells 37, 46 and 49)\<close>

text \<open>
  \<^verbatim>\<open>long_wavelengths = 7 * u.um < extracted_spectrum.wavelength\<close>
  \<^verbatim>\<open>extracted_spectrum_per_pixel = np.reshape(source_spectrum_ma[..., long_wavelengths], (-1, np.count_nonzero(long_wavelengths)))\<close>

  Wavelengths are in microns. A boolean index of the wrong length raises
  \<open>IndexError\<close>. The reshape lists the spatial pixels row by row, one spectrum each.
\<close>

definition long_wavelengths :: "real list \<Rightarrow> bool list" where
  "long_wavelengths wavelength = map (\<lambda>w. 7 < w) wavelength"

definition boolean_index :: "'a list \<Rightarrow> bool list \<Rightarrow> 'a list" where
  "boolean_index xs flags = map fst (filter snd (zip xs flags))"

definition extracted_spectrum_per_pixel ::
  "melt ndarray3 \<Rightarrow> bool list \<Rightarrow> py_error + melt list list" where
  "extracted_spectrum_per_pixel ma flags =
     (case shape3 ma of
        (m0, m1, m2) \<Rightarrow>
          if length flags \<noteq> m2 then Inl IndexError
          else Inr (map (\<lambda>(i, j). boolean_index (map (\<lambda>k. at3 ma i j k) [0..<m2]) flags)
                      (pixel_indices m0 m1)))"

text \<open>
  \<^verbatim>\<open>X = np.vander((wavelengths - wavelengths[0]).to_value(u.AA), n_params)\<close> with
  \<open>n_params = 2\<close>: one row \<open>[x, 1]\<close> per wavelength, the offset from the first
  wavelength of the band in Angstrom (ten thousand to the micron).
\<close>

definition np_vander2 :: "real list \<Rightarrow> (real \<times> real) list" where
  "np_vander2 xs = map (\<lambda>x. (x, 1)) xs"




text \<open>
  The body of the loop of cell 49 for one unmasked pixel, with the solver as a
  parameter: \<open>wavelengths[0]\<close> of an empty band raises \<open>IndexError\<close>.
\<close>

definition pixel_fit ::
  "((real \<times> real) list \<Rightarrow> melt list \<Rightarrow> py_error + (fl \<times> fl)) \<Rightarrow> real list \<Rightarrow> melt list
     \<Rightarrow> py_error + (fl \<times> fl)" where
  "pixel_fit lstsq wavelengths pxl_spectrum =
     (case wavelengths of
        [] \<Rightarrow> Inl IndexError
      | w0 # _ \<Rightarrow> lstsq (np_vander2 (map (\<lambda>w. (w - w0) * 10000) wavelengths)) pxl_spectrum)"

text \<open>
  \<^verbatim>\<open>for i, pxl_spectrum in enumerate(extracted_spectrum_per_pixel):\<close>
  \<^verbatim>\<open>    if not np.all(pxl_spectrum.mask):\<close>
  \<^verbatim>\<open>        betas[i] = np.linalg.lstsq(X, pxl_spectrum, rcond=-1)[0]\<close>
  \<^verbatim>\<open>        hotspot_distances.mask[i] = False\<close>

  The state is \<open>betas\<close> (one row \<open>(betas[i, 0], betas[i, 1])\<close> per pixel) and the mask
  of \<open>hotspot_distances\<close>. Writing the mask beyond its length raises \<open>IndexError\<close>.
\<close>

fun slope_fit_loop ::
  "((real \<times> real) list \<Rightarrow> melt list \<Rightarrow> py_error + (fl \<times> fl)) \<Rightarrow> real list \<Rightarrow> melt list list
     \<Rightarrow> nat \<Rightarrow> (fl \<times> fl) list \<times> bool list \<Rightarrow> py_error + ((fl \<times> fl) list \<times> bool list)" where
  "slope_fit_loop lstsq wavelengths [] i state = Inr state"
| "slope_fit_loop lstsq wavelengths (pxl_spectrum # rest) i (betas, dmask) =
     (if \<not> list_all snd pxl_spectrum then
        (case pixel_fit lstsq wavelengths pxl_spectrum of
           Inl e \<Rightarrow> Inl e
         | Inr beta \<Rightarrow>
             if i < length dmask then
               slope_fit_loop lstsq wavelengths rest (Suc i) (betas[i := beta], dmask[i := False])
             else Inl IndexError)
      else slope_fit_loop lstsq wavelengths rest (Suc i) (betas, dmask))"

text \<open>
  \<^verbatim>\<open>betas = np.nan * np.zeros((extracted_spectrum_per_pixel.shape[0], n_params))\<close>
  \<^verbatim>\<open>hotspot_distances.mask = np.ones(len(hotspot_distances)).astype(bool)\<close>

  \<open>distance_from_hotspot\<close> is computed by the reader of the notebook; only the number
  of its elements matters to the loop.
\<close>

definition slope_fit ::
  "((real \<times> real) list \<Rightarrow> melt list \<Rightarrow> py_error + (fl \<times> fl)) \<Rightarrow> real list \<Rightarrow> melt list list
     \<Rightarrow> real list \<Rightarrow> py_error + ((fl \<times> fl) list \<times> bool list)" where
  "slope_fit lstsq wavelengths pixels distance_from_hotspot =
     slope_fit_loop lstsq wavelengths pixels 0
       (replicate (length pixels) (fl_mul NaN (Fin 0), fl_mul NaN (Fin 0)),
        replicate (length distance_from_hotspot) True)"

section \<open>Configuring and running the model fit (cells 9 to 13)\<close>

text \<open>
  The Model Fitting plugin keeps its components by label, in creation order. A
  component has a model name and named parameters, each with a value and a flag saying
  whether the fit may vary it. Of the plugin's models only \<open>BlackBody\<close> is used; its
  parameters are \<open>temperature\<close> and \<open>scale\<close>. The values a new component starts with
  are chosen by the plugin and are a parameter here.
\<close>

record parameter =
  p_value :: real
  p_fixed :: bool

record component =
  comp_model :: string
  comp_params :: "(string \<times> parameter) list"

type_synonym plugin = "(string \<times> component) list"

definition model_parameters :: "string \<Rightarrow> string list option" where
  "model_parameters model = (if model = ''BlackBody'' then Some [''temperature'', ''scale''] else None)"

definition create_model_component ::
  "(string \<Rightarrow> real) \<Rightarrow> string \<Rightarrow> string \<Rightarrow> plugin \<Rightarrow> py_error + plugin" where
  "create_model_component init model label st =
     (case model_parameters model of
        None \<Rightarrow> Inl ValueError
      | Some names \<Rightarrow>
          Inr (st @ [(label, \<lparr>comp_model = model,
                              comp_params = map (\<lambda>n. (n, \<lparr>p_value = init n, p_fixed = False\<rparr>)) names\<rparr>)]))"

definition set_model_component ::
  "string \<Rightarrow> string \<Rightarrow> real \<Rightarrow> bool \<Rightarrow> plugin \<Rightarrow> py_error + plugin" where
  "set_model_component label parameter val fixed st =
     (case map_of st label of
        None \<Rightarrow> Inl ValueError
      | Some c \<Rightarrow>
          if parameter \<notin> set (map fst (comp_params c)) then Inl ValueError
          else Inr (map (\<lambda>(l, c'). if l = label
                          then (l, c'\<lparr>comp_params :=
                                       map (\<lambda>(n, p). if n = parameter
                                              then (n, \<lparr>p_value = val, p_fixed = fixed\<rparr>)
                                              else (n, p))
                                         (comp_params c')\<rparr>)
                          else (l, c')) st))"

text \<open>
  Modelled from the spec: \<open>calculate_fit\<close> of the Model Fitting plugin, which is not
  part of the notebook. The least-squares minimisation varies only the free parameters:
  a fixed parameter keeps its value, a free one takes the value the optimiser \<open>opt\<close>
  arrives at. The optimiser is a parameter; nothing is assumed about the values it finds.
\<close>

definition calculate_fit :: "(string \<Rightarrow> string \<Rightarrow> real) \<Rightarrow> plugin \<Rightarrow> plugin" where
  "calculate_fit opt st =
     map (\<lambda>(l, c). (l, c\<lparr>comp_params :=
                            map (\<lambda>(n, p). if p_fixed p then (n, p) else (n, p\<lparr>p_value := opt l n\<rparr>))
                              (comp_params c)\<rparr>)) st"

text \<open>
  \<^verbatim>\<open>fit_params = Table(dict(temperature=temperatures, scale=expected_scales))\<close>

  A table of one row per component; columns of different lengths raise \<open>ValueError\<close>.
\<close>

definition Table :: "real list \<Rightarrow> real list \<Rightarrow> py_error + (string \<times> real) list list" where
  "Table temperatures expected_scales =
     (if length temperatures \<noteq> length expected_scales then Inl ValueError
      else Inr (map (\<lambda>(t, s). [(''temperature'', t), (''scale'', s)])
                  (zip temperatures expected_scales)))"

definition digit_chars :: string where
  "digit_chars = ''0123456789''"

fun str_nat :: "nat \<Rightarrow> string" where
  "str_nat n =
     (if n < 10 then [digit_chars ! n] else str_nat (n div 10) @ [digit_chars ! (n mod 10)])"

definition n_components :: nat where
  "n_components = 3"

definition component_models :: "string list" where
  "component_models = replicate n_components ''BlackBody''"

definition component_labels :: "string list" where
  "component_labels = map (\<lambda>i. ''BB'' @ str_nat i) [0..<n_components]"

definition fixed_parameters :: "string list" where
  "fixed_parameters = [''temperature'']"

text \<open>
  \<^verbatim>\<open>for parameter in params.colnames:\<close>
  \<^verbatim>\<open>    modelfit_plugin.set_model_component(label, parameter, value=params[parameter], fixed=parameter in fixed_parameters)\<close>
\<close>

fun set_parameters :: "string \<Rightarrow> (string \<times> real) list \<Rightarrow> plugin \<Rightarrow> py_error + plugin" where
  "set_parameters label [] st = Inr st"
| "set_parameters label ((parameter, val) # others) st =
     (case set_model_component label parameter val (parameter \<in> set fixed_parameters) st of
        Inl e \<Rightarrow> Inl e
      | Inr st' \<Rightarrow> set_parameters label others st')"

text \<open>
  \<^verbatim>\<open>for model, label, params in zip(component_models, component_labels, fit_params):\<close>
  \<^verbatim>\<open>    if label not in modelfit_plugin.model_components:\<close>
  \<^verbatim>\<open>        modelfit_plugin.create_model_component(model, label)\<close>
\<close>

fun configure_components ::
  "(string \<Rightarrow> real) \<Rightarrow> (string \<times> string \<times> (string \<times> real) list) list \<Rightarrow> plugin
     \<Rightarrow> py_error + plugin" where
  "configure_components init [] st = Inr st"
| "configure_components init ((model, label, params) # others) st =
     (case (if label \<notin> set (map fst st) then create_model_component init model label st
            else Inr st) of
        Inl e \<Rightarrow> Inl e
      | Inr st1 \<Rightarrow>
          (case set_parameters label params st1 of
             Inl e \<Rightarrow> Inl e
           | Inr st2 \<Rightarrow> configure_components init others st2))"

definition configure ::
  "(string \<Rightarrow> real) \<Rightarrow> real list \<Rightarrow> real list \<Rightarrow> plugin \<Rightarrow> py_error + plugin" where
  "configure init temperatures expected_scales st =
     (case Table temperatures expected_scales of
        Inl e \<Rightarrow> Inl e
      | Inr fit_params \<Rightarrow>
          configure_components init
            (zip component_models (zip component_labels fit_params)) st)"

text \<open>Cell 13 as a whole: configure the components, then \<^verbatim>\<open>modelfit_plugin.calculate_fit()\<close>.\<close>

definition fit_composite_model ::
  "(string \<Rightarrow> real) \<Rightarrow> (string \<Rightarrow> string \<Rightarrow> real) \<Rightarrow> real list \<Rightarrow> real list \<Rightarrow> plugin
     \<Rightarrow> py_error + plugin" where
  "fit_composite_model init opt temperatures expected_scales st =
     (case configure init temperatures expected_scales st of
        Inl e \<Rightarrow> Inl e
      | Inr st' \<Rightarrow> Inr (calculate_fit opt st'))"

definition param_of :: "component \<Rightarrow> string \<Rightarrow> parameter option" where
  "param_of c name = map_of (comp_params c) name"

text \<open>
  The plugin as cell 13 can find it: fresh, with no component yet, or as an earlier run
  of the cell left it, holding the three blackbody components under their labels.
\<close>

definition blackbody_shaped :: "component \<Rightarrow> bool" where
  "blackbody_shaped c =
     (comp_model c = ''BlackBody'' \<and> map fst (comp_params c) = [''temperature'', ''scale''])"

text \<open>A blackbody component with temperature \<open>t\<close> held fixed and scale \<open>s\<close> free.\<close>

definition configured :: "real \<Rightarrow> real \<Rightarrow> component" where
  "configured t s =
     \<lparr>comp_model = ''BlackBody'',
      comp_params = [(''temperature'', \<lparr>p_value = t, p_fixed = True\<rparr>),
                     (''scale'', \<lparr>p_value = s, p_fixed = False\<rparr>)]\<rparr>"

definition plugin_ready :: "plugin \<Rightarrow> bool" where
  "plugin_ready st =
     (st = [] \<or> (map fst st = component_labels \<and> list_all (\<lambda>(l, c). blackbody_shaped c) st))"

section \<open>Properties of the spectral subsets\<close>

lemma length_linspace: "length (linspace start stop num) = num"
  by (simp add: linspace_def)

lemma linspace_nth:
  assumes "0 < n" and "i \<le> n"
  shows "linspace start stop (Suc n) ! i = start + real i * (stop - start) / real n"
proof (cases "i = n")
  case True
  have "linspace start stop (Suc n) ! n = stop"
    using assms(1) by (simp add: linspace_def nth_append)
  moreover have "start + real n * (stop - start) / real n = stop"
    using assms(1) by simp
  ultimately show ?thesis using True by simp
next
  case False
  then have "i < n" using assms(2) by simp
  then show ?thesis
    using assms(1) by (simp add: linspace_def nth_append)
qed

lemma array_min_eq: "ws \<noteq> [] \<Longrightarrow> array_min ws = Inr (Min (set ws))"
proof (cases ws)
  case Nil
  assume "ws \<noteq> []"
  with Nil show ?thesis by simp
next
  case (Cons w rest)
  show ?thesis
    unfolding Cons array_min_def by (simp only: list.case Min.set_eq_fold)
qed

lemma array_max_eq: "ws \<noteq> [] \<Longrightarrow> array_max ws = Inr (Max (set ws))"
proof (cases ws)
  case Nil
  assume "ws \<noteq> []"
  with Nil show ?thesis by simp
next
  case (Cons w rest)
  show ?thesis
    unfolding Cons array_max_def by (simp only: list.case Max.set_eq_fold)
qed

lemma sequence_sum_all_Inr: "sequence_sum (map Inr xs) = Inr xs"
  by (induction xs) simp_all

lemma take2_drop:
  "Suc i < length xs \<Longrightarrow> take 2 (drop i xs) = [xs ! i, xs ! Suc i]"
proof -
  assume a: "Suc i < length xs"
  then have "drop i xs = xs ! i # drop (Suc i) xs"
    by (simp add: Cons_nth_drop_Suc)
  moreover have "drop (Suc i) xs = xs ! Suc i # drop (Suc (Suc i)) xs"
    using a by (simp add: Cons_nth_drop_Suc)
  ultimately show ?thesis by (simp add: numeral_2_eq_2)
qed

lemma bands_explicit:
  assumes "wavelength \<noteq> []" and "0 < n"
  shows "bands wavelength n =
           Inr (map (\<lambda>i. \<lparr>roi_min = linspace (Min (set wavelength)) (Max (set wavelength)) (Suc n) ! i,
                          roi_max = linspace (Min (set wavelength)) (Max (set wavelength)) (Suc n) ! Suc i\<rparr>)
                    [0..<n])"
proof -
  let ?e = "linspace (Min (set wavelength)) (Max (set wavelength)) (Suc n)"
  have e: "subset_edges wavelength n = Inr ?e"
    using assms(1) by (simp add: subset_edges_def array_min_eq array_max_eq)
  have "map XRangeROI (subset_bounds ?e n) =
        map Inr (map (\<lambda>i. \<lparr>roi_min = ?e ! i, roi_max = ?e ! Suc i\<rparr>) [0..<n])"
    by (simp add: subset_bounds_def XRangeROI_def take2_drop length_linspace)
  then show ?thesis
    by (simp only: bands_def e sum.case sequence_sum_all_Inr)
qed

lemma interval_chain_cover:
  fixes e :: "nat \<Rightarrow> real"
  assumes "0 < n" and "e 0 \<le> w" and "w \<le> e n"
  shows "\<exists>i<n. e i \<le> w \<and> w \<le> e (Suc i)"
  using assms
proof (induction n)
  case 0
  then show ?case by simp
next
  case (Suc n)
  show ?case
  proof (cases "e n \<le> w")
    case True
    then show ?thesis using Suc.prems(3) by blast
  next
    case False
    then have wn: "w \<le> e n" by simp
    have "0 < n"
    proof (rule ccontr)
      assume "\<not> 0 < n"
      then have "n = 0" by simp
      then show False using False Suc.prems(2) by simp
    qed
    from Suc.IH [OF this Suc.prems(2) wn] obtain i where "i < n" "e i \<le> w" "w \<le> e (Suc i)"
      by blast
    then show ?thesis using less_Suc_eq by blast
  qed
qed

text \<open>
  Claim C1. For a spectral axis whose smallest and largest wavelength differ and a band
  count \<open>N\<close> of at least one, the loop of cell 19 returns exactly \<open>N\<close> bands. Band
  \<open>i\<close> runs from \<open>lo + i * (hi - lo) / N\<close> to \<open>lo + (i + 1) * (hi - lo) / N\<close>, so
  the \<open>N + 1\<close> boundaries are linearly spaced between the axis minimum \<open>lo\<close> and
  maximum \<open>hi\<close>. The bands are in ascending order, two consecutive bands have exactly
  one boundary in common, the first band starts at \<open>lo\<close>, the last ends at \<open>hi\<close>, and
  every wavelength between \<open>lo\<close> and \<open>hi\<close> is selected by some band.
\<close>

theorem subsetter_partition:
  assumes ne: "wavelength \<noteq> []"
    and lt: "Min (set wavelength) < Max (set wavelength)"
    and N: "1 \<le> N"
  shows "\<exists>bs. bands wavelength N = Inr bs \<and> length bs = N
           \<and> (\<forall>i<N. roi_min (bs ! i)
                         = Min (set wavelength)
                           + real i * (Max (set wavelength) - Min (set wavelength)) / real N
                     \<and> roi_max (bs ! i)
                         = Min (set wavelength)
                           + real (Suc i) * (Max (set wavelength) - Min (set wavelength)) / real N
                     \<and> roi_min (bs ! i) < roi_max (bs ! i))
           \<and> (\<forall>i j. i < j \<and> j < N \<longrightarrow> roi_min (bs ! i) < roi_min (bs ! j))
           \<and> (\<forall>i. Suc i < N \<longrightarrow>
                  {roi_min (bs ! i), roi_max (bs ! i)}
                    \<inter> {roi_min (bs ! Suc i), roi_max (bs ! Suc i)} = {roi_max (bs ! i)})
           \<and> roi_min (bs ! 0) = Min (set wavelength)
           \<and> roi_max (bs ! (N - 1)) = Max (set wavelength)
           \<and> (\<forall>w. Min (set wavelength) \<le> w \<and> w \<le> Max (set wavelength)
                  \<longrightarrow> (\<exists>i<N. band_selects (bs ! i) w))"
proof -
  let ?lo = "Min (set wavelength)" and ?hi = "Max (set wavelength)"
  let ?e = "\<lambda>i. linspace ?lo ?hi (Suc N) ! i"
  let ?bs = "map (\<lambda>i. \<lparr>roi_min = ?e i, roi_max = ?e (Suc i)\<rparr>) [0..<N]"
  have Npos: "0 < N" using N by simp
  have d: "0 < ?hi - ?lo" using lt by simp
  have e: "?e i = ?lo + real i * (?hi - ?lo) / real N" if "i \<le> N" for i
    using linspace_nth [OF Npos that] .
  have mono: "?e i < ?e j" if "i < j" "j \<le> N" for i j
  proof -
    have "real i * (?hi - ?lo) < real j * (?hi - ?lo)"
      using that(1) d by simp
    then have "real i * (?hi - ?lo) / real N < real j * (?hi - ?lo) / real N"
      using Npos by (simp add: divide_strict_right_mono)
    then show ?thesis using e [of i] e [of j] that by simp
  qed
  have b: "bands wavelength N = Inr ?bs"
    using bands_explicit [OF ne Npos] .
  have nth: "?bs ! i = \<lparr>roi_min = ?e i, roi_max = ?e (Suc i)\<rparr>" if "i < N" for i
    using that by simp
  have p1: "\<forall>i<N. roi_min (?bs ! i) = ?lo + real i * (?hi - ?lo) / real N
              \<and> roi_max (?bs ! i) = ?lo + real (Suc i) * (?hi - ?lo) / real N
              \<and> roi_min (?bs ! i) < roi_max (?bs ! i)"
  proof (intro allI impI)
    fix i assume i: "i < N"
    have "?e i < ?e (Suc i)" using mono [of i "Suc i"] i by simp
    then show "roi_min (?bs ! i) = ?lo + real i * (?hi - ?lo) / real N
              \<and> roi_max (?bs ! i) = ?lo + real (Suc i) * (?hi - ?lo) / real N
              \<and> roi_min (?bs ! i) < roi_max (?bs ! i)"
      using nth [OF i] e [of i] e [of "Suc i"] i by simp
  qed
  have p2: "\<forall>i j. i < j \<and> j < N \<longrightarrow> roi_min (?bs ! i) < roi_min (?bs ! j)"
  proof (intro allI impI)
    fix i j assume ij: "i < j \<and> j < N"
    then have "?e i < ?e j" using mono [of i j] by simp
    then show "roi_min (?bs ! i) < roi_min (?bs ! j)"
      using nth [of i] nth [of j] ij by simp
  qed
  have p3: "\<forall>i. Suc i < N \<longrightarrow>
              {roi_min (?bs ! i), roi_max (?bs ! i)}
                \<inter> {roi_min (?bs ! Suc i), roi_max (?bs ! Suc i)} = {roi_max (?bs ! i)}"
  proof (intro allI impI)
    fix i assume i: "Suc i < N"
    have a: "?e i < ?e (Suc i)" using mono [of i "Suc i"] i by simp
    have c: "?e (Suc i) < ?e (Suc (Suc i))" using mono [of "Suc i" "Suc (Suc i)"] i by simp
    have n1: "?bs ! i = \<lparr>roi_min = ?e i, roi_max = ?e (Suc i)\<rparr>"
      using nth [of i] i by simp
    have n2: "?bs ! Suc i = \<lparr>roi_min = ?e (Suc i), roi_max = ?e (Suc (Suc i))\<rparr>"
      using nth [of "Suc i"] i by simp
    show "{roi_min (?bs ! i), roi_max (?bs ! i)}
            \<inter> {roi_min (?bs ! Suc i), roi_max (?bs ! Suc i)} = {roi_max (?bs ! i)}"
      unfolding n1 n2 using a c by auto
  qed
  have p4: "roi_min (?bs ! 0) = ?lo"
    using nth [OF Npos] e [of 0] by simp
  have p5: "roi_max (?bs ! (N - 1)) = ?hi"
  proof -
    have "?e N = ?hi" using e [of N] Npos by simp
    then show ?thesis using nth [of "N - 1"] Npos by simp
  qed
  have p6: "\<forall>w. ?lo \<le> w \<and> w \<le> ?hi \<longrightarrow> (\<exists>i<N. band_selects (?bs ! i) w)"
  proof (intro allI impI)
    fix w assume w: "?lo \<le> w \<and> w \<le> ?hi"
    have e0: "?e 0 = ?lo" using e [of 0] by simp
    have eN: "?e N = ?hi" using e [of N] Npos by simp
    from interval_chain_cover [of N ?e w] Npos w e0 eN
    obtain i where i: "i < N" "?e i \<le> w" "w \<le> ?e (Suc i)" by auto
    then have "band_selects (?bs ! i) w"
      using nth [OF i(1)] by (simp add: band_selects_def)
    then show "\<exists>i<N. band_selects (?bs ! i) w" using i(1) by blast
  qed
  have len: "length ?bs = N" by simp
  show ?thesis
    using b len p1 p2 p3 p4 p5 p6 by blast
qed

text \<open>The theorem at the axis \<open>[1, 2, 3]\<close> with two bands: \<open>[1, 2]\<close> and \<open>[2, 3]\<close>.\<close>

theorem subsetter_partition_witness:
  "\<exists>bs. bands [1, 2, 3] 2 = Inr bs \<and> length bs = 2
           \<and> roi_min (bs ! 0) = 1 \<and> roi_max (bs ! 0) = 2
           \<and> roi_min (bs ! 1) = 2 \<and> roi_max (bs ! 1) = 3
           \<and> band_selects (bs ! 1) (5 / 2)"
proof -
  have ne: "[1, 2, 3 :: real] \<noteq> []" by simp
  have lt: "Min (set [1, 2, 3 :: real]) < Max (set [1, 2, 3])" by simp
  have N: "(1::nat) \<le> 2" by simp
  from subsetter_partition [OF ne lt N] obtain bs where
    b: "bands [1, 2, 3] 2 = Inr bs" "length bs = 2"
    and f: "\<forall>i<2. roi_min (bs ! i)
                         = Min (set [1, 2, 3])
                           + real i * (Max (set [1, 2, 3]) - Min (set [1, 2, 3])) / real 2
                     \<and> roi_max (bs ! i)
                         = Min (set [1, 2, 3])
                           + real (Suc i) * (Max (set [1, 2, 3]) - Min (set [1, 2, 3])) / real 2
                     \<and> roi_min (bs ! i) < roi_max (bs ! i)"
    by blast
  have "roi_min (bs ! 0) = 1 \<and> roi_max (bs ! 0) = 2" using f [rule_format, of 0] by simp
  moreover have "roi_min (bs ! 1) = 2 \<and> roi_max (bs ! 1) = 3" using f [rule_format, of 1] by simp
  ultimately show ?thesis using b by (auto simp: band_selects_def)
qed





section \<open>Properties of the mask combination\<close>

lemma bitfield_to_boolean_mask_nonzero: "bitfield_to_boolean_mask b = (b \<noteq> 0)"
  by (simp add: bitfield_to_boolean_mask_def)

text \<open>
  Claim C4. After \<^verbatim>\<open>source_spectrum.mask = mask\<close> every element of the mask is the
  logical OR of the three defect sources at that element: the bit-field mask of the
  data-quality flags (set when any flag bit is set), the mask of the data-quality
  subset, and the NaN test of the data. The assignment leaves the data array as it was.
\<close>

theorem combine_masks_frame:
  "at3 (nd_mask (combine_masks source_spectrum mask_nddata)) i j k
     = (at3 (dq_data mask_nddata) i j k \<noteq> 0
        \<or> at3 (dq_mask mask_nddata) i j k
        \<or> isnan (at3 (nd_data source_spectrum) i j k))
   \<and> shape3 (nd_mask (combine_masks source_spectrum mask_nddata))
       = shape3 (nd_data source_spectrum)
   \<and> nd_data (combine_masks source_spectrum mask_nddata) = nd_data source_spectrum"
  by (simp add: combine_masks_def combined_mask_def bitfield_to_boolean_mask_nonzero)

text \<open>
  The theorem on a cube of one spaxel and two wavelengths: the first sample is NaN with
  clean flags, the second is a number with flag bit 2 set. Both end up masked and the
  data are untouched.
\<close>

theorem combine_masks_frame_witness:
  "at3 (nd_mask (combine_masks
           \<lparr>nd_data = \<lparr>shape3 = (1, 1, 2), at3 = (\<lambda>i j k. if k = 0 then NaN else Fin 5)\<rparr>,
            nd_mask = \<lparr>shape3 = (1, 1, 2), at3 = (\<lambda>i j k. False)\<rparr>\<rparr>
           \<lparr>dq_data = \<lparr>shape3 = (1, 1, 2), at3 = (\<lambda>i j k. if k = 0 then 0 else 4)\<rparr>,
            dq_mask = \<lparr>shape3 = (1, 1, 2), at3 = (\<lambda>i j k. False)\<rparr>\<rparr>)) 0 0 0
   \<and> at3 (nd_mask (combine_masks
           \<lparr>nd_data = \<lparr>shape3 = (1, 1, 2), at3 = (\<lambda>i j k. if k = 0 then NaN else Fin 5)\<rparr>,
            nd_mask = \<lparr>shape3 = (1, 1, 2), at3 = (\<lambda>i j k. False)\<rparr>\<rparr>
           \<lparr>dq_data = \<lparr>shape3 = (1, 1, 2), at3 = (\<lambda>i j k. if k = 0 then 0 else 4)\<rparr>,
            dq_mask = \<lparr>shape3 = (1, 1, 2), at3 = (\<lambda>i j k. False)\<rparr>\<rparr>)) 0 0 1
   \<and> at3 (nd_data (combine_masks
           \<lparr>nd_data = \<lparr>shape3 = (1, 1, 2), at3 = (\<lambda>i j k. if k = 0 then NaN else Fin 5)\<rparr>,
            nd_mask = \<lparr>shape3 = (1, 1, 2), at3 = (\<lambda>i j k. False)\<rparr>\<rparr>
           \<lparr>dq_data = \<lparr>shape3 = (1, 1, 2), at3 = (\<lambda>i j k. if k = 0 then 0 else 4)\<rparr>,
            dq_mask = \<lparr>shape3 = (1, 1, 2), at3 = (\<lambda>i j k. False)\<rparr>\<rparr>)) 0 0 1 = Fin 5"
  using combine_masks_frame
    [of "\<lparr>nd_data = \<lparr>shape3 = (1, 1, 2), at3 = (\<lambda>i j k. if k = 0 then NaN else Fin 5)\<rparr>,
          nd_mask = \<lparr>shape3 = (1, 1, 2), at3 = (\<lambda>i j k. False)\<rparr>\<rparr>"
        "\<lparr>dq_data = \<lparr>shape3 = (1, 1, 2), at3 = (\<lambda>i j k. if k = 0 then 0 else 4)\<rparr>,
          dq_mask = \<lparr>shape3 = (1, 1, 2), at3 = (\<lambda>i j k. False)\<rparr>\<rparr>" 0 0 0]
    combine_masks_frame
    [of "\<lparr>nd_data = \<lparr>shape3 = (1, 1, 2), at3 = (\<lambda>i j k. if k = 0 then NaN else Fin 5)\<rparr>,
          nd_mask = \<lparr>shape3 = (1, 1, 2), at3 = (\<lambda>i j k. False)\<rparr>\<rparr>"
        "\<lparr>dq_data = \<lparr>shape3 = (1, 1, 2), at3 = (\<lambda>i j k. if k = 0 then 0 else 4)\<rparr>,
          dq_mask = \<lparr>shape3 = (1, 1, 2), at3 = (\<lambda>i j k. False)\<rparr>\<rparr>" 0 0 1]
  by simp

section \<open>Properties of the masked spectrum\<close>

lemma fl_add_zero_left: "fl_add (Fin 0) y = y"
  by (cases y) simp_all

lemma fl_sum_Cons: "fl_sum (x # xs) = fl_add x (fl_sum xs)"
  by (simp add: fl_sum_def)

lemma fl_sum_Nil: "fl_sum [] = Fin 0"
  by (simp add: fl_sum_def)

lemma fl_sum_skip_zero:
  "fl_sum (map (\<lambda>x. if P x then Fin 0 else f x) xs) = fl_sum (map f (filter (\<lambda>x. \<not> P x) xs))"
  by (induction xs) (simp_all add: fl_sum_Cons fl_sum_Nil fl_add_zero_left)

lemma count_max_eq: "cs \<noteq> [] \<Longrightarrow> count_max cs = Inr (Max (set cs))"
proof (cases cs)
  case Nil
  assume "cs \<noteq> []"
  with Nil show ?thesis by simp
next
  case (Cons c rest)
  show ?thesis
    unfolding Cons count_max_def by (simp only: list.case Max.set_eq_fold)
qed

lemma nan_fill_data:
  "at3 (nd_data (nan_fill (combine_masks s m))) i j k
     = (if at3 (combined_mask s m) i j k then NaN else at3 (nd_data s) i j k)"
  by (simp add: nan_fill_def combine_masks_def)

lemma nan_fill_shape:
  "shape3 (nd_data (nan_fill (combine_masks s m))) = shape3 (nd_data s)"
  by (simp add: nan_fill_def combine_masks_def)

lemma nan_fill_isnan:
  "isnan (at3 (nd_data (nan_fill (combine_masks s m))) i j k) = at3 (combined_mask s m) i j k"
  by (simp add: nan_fill_data combined_mask_def)

lemma count_valid_nth:
  assumes "shape3 (nd_data s) = (n0, n1, n2)" and "k < n2"
  shows "count_valid (nd_data (nan_fill (combine_masks s m))) ! k = length (valid_spaxels s m k)"
proof -
  have "length (filter (\<lambda>x. \<not> isnan x)
          (map (\<lambda>(i, j). at3 (nd_data (nan_fill (combine_masks s m))) i j k) idx))
        = length (filter (\<lambda>(i, j). \<not> at3 (combined_mask s m) i j k) idx)" for idx
    by (induction idx) (auto simp: nan_fill_isnan)
  then show ?thesis
    using assms by (simp add: count_valid_def spaxels_at_def valid_spaxels_def nan_fill_shape)
qed

lemma nan_to_zero_filled:
  "nan_to_zero (at3 (nd_data (nan_fill (combine_masks s m))) i j k)
     = (if at3 (combined_mask s m) i j k then Fin 0 else at3 (nd_data s) i j k)"
proof (cases "at3 (combined_mask s m) i j k")
  case True
  then show ?thesis by (simp add: nan_fill_data nan_to_zero_def)
next
  case False
  then have "\<not> isnan (at3 (nd_data s) i j k)" by (simp add: combined_mask_def)
  then show ?thesis using False by (simp add: nan_fill_data nan_to_zero_def)
qed

lemma np_nansum_nth:
  assumes "shape3 (nd_data s) = (n0, n1, n2)" and "k < n2"
  shows "np_nansum (nd_data (nan_fill (combine_masks s m))) ! k = fl_sum (valid_spaxels s m k)"
proof -
  let ?P = "\<lambda>p. at3 (combined_mask s m) (fst p) (snd p) k"
  let ?f = "\<lambda>p. at3 (nd_data s) (fst p) (snd p) k"
  have "map nan_to_zero (map (\<lambda>(i, j). at3 (nd_data (nan_fill (combine_masks s m))) i j k) idx)
        = map (\<lambda>p. if ?P p then Fin 0 else ?f p) idx" for idx
    by (induction idx) (simp_all add: nan_to_zero_filled case_prod_unfold)
  then have "fl_sum (map nan_to_zero
               (map (\<lambda>(i, j). at3 (nd_data (nan_fill (combine_masks s m))) i j k) idx))
             = fl_sum (map ?f (filter (\<lambda>p. \<not> ?P p) idx))" for idx
    by (simp only: fl_sum_skip_zero)
  then show ?thesis
    using assms by (simp add: np_nansum_def spaxels_at_def valid_spaxels_def nan_fill_shape case_prod_unfold)
qed

lemma scaled_mean_eq:
  assumes "c \<le> cmax" and "c = 0 \<longrightarrow> S = Fin 0"
  shows "fl_mul S (true_divide cmax c) = fl_mul (fl_div S (Fin (real c))) (Fin (real cmax))"
proof (cases "c = 0")
  case True
  then show ?thesis using assms(2) by (simp add: true_divide_def fl_inf_def)
next
  case False
  then have "0 < c" "0 < cmax" using assms(1) by simp_all
  then show ?thesis
    by (cases S) (simp_all add: true_divide_def fl_inf_def divide_less_0_iff zero_less_divide_iff)
qed

lemma zero_count_flux: "fl_mul (Fin 0) (true_divide cmax 0) = NaN"
  by (simp add: true_divide_def fl_inf_def)

text \<open>
  Claim C10. When the cube has at least one wavelength slice, the masked spectrum is
  computed, with one flux per slice. With \<open>count\<close> the number of spaxels of slice \<open>k\<close>
  that the combined mask leaves valid and \<open>count_max\<close> the largest such number over
  all slices, the flux of slice \<open>k\<close> is the sum of the valid spaxels times
  \<open>count_max / count\<close>, which is the mean over the valid spaxels times \<open>count_max\<close>.
  A slice without a valid spaxel has the flux NaN, not zero.
\<close>

theorem masked_spectrum_flux_scaled_mean:
  assumes shape: "shape3 (nd_data source_spectrum) = (n0, n1, n2)" and k: "k < n2"
  shows "\<exists>flux. masked_spectrum_flux source_spectrum mask_nddata = Inr flux
           \<and> length flux = n2
           \<and> flux ! k
               = fl_mul (fl_sum (valid_spaxels source_spectrum mask_nddata k))
                   (true_divide
                      (Max ((\<lambda>k'. length (valid_spaxels source_spectrum mask_nddata k')) ` {..<n2}))
                      (length (valid_spaxels source_spectrum mask_nddata k)))
           \<and> flux ! k
               = fl_mul
                   (fl_div (fl_sum (valid_spaxels source_spectrum mask_nddata k))
                      (Fin (real (length (valid_spaxels source_spectrum mask_nddata k)))))
                   (Fin (real (Max ((\<lambda>k'. length (valid_spaxels source_spectrum mask_nddata k'))
                                     ` {..<n2}))))
           \<and> (valid_spaxels source_spectrum mask_nddata k = [] \<longrightarrow> flux ! k = NaN)"
proof -
  let ?ms = "nd_data (nan_fill (combine_masks source_spectrum mask_nddata))"
  let ?cnt = "\<lambda>k'. length (valid_spaxels source_spectrum mask_nddata k')"
  let ?cmax = "Max (?cnt ` {..<n2})"
  let ?flux = "map (\<lambda>(s, c). fl_mul s (true_divide ?cmax c)) (zip (np_nansum ?ms) (count_valid ?ms))"
  have sh: "shape3 ?ms = (n0, n1, n2)" using shape by (simp add: nan_fill_shape)
  have cv: "count_valid ?ms = map ?cnt [0..<n2]"
  proof (rule nth_equalityI)
    show "length (count_valid ?ms) = length (map ?cnt [0..<n2])"
      using sh by (simp add: count_valid_def)
  next
    fix i assume "i < length (count_valid ?ms)"
    then have "i < n2" using sh by (simp add: count_valid_def)
    then show "count_valid ?ms ! i = map ?cnt [0..<n2] ! i"
      using count_valid_nth [OF shape] by simp
  qed
  have ne: "count_valid ?ms \<noteq> []" using cv k by auto
  have "set (count_valid ?ms) = ?cnt ` {..<n2}"
    unfolding cv by (simp add: lessThan_atLeast0)
  then have cm: "count_max (count_valid ?ms) = Inr ?cmax"
    using count_max_eq [OF ne] by simp
  have res: "masked_spectrum_flux source_spectrum mask_nddata = Inr ?flux"
    by (simp add: masked_spectrum_flux_def Let_def cm)
  have ln: "length (np_nansum ?ms) = n2" using sh by (simp add: np_nansum_def)
  have lc: "length (count_valid ?ms) = n2" using cv by simp
  have len: "length ?flux = n2" using ln lc by simp
  have fk: "?flux ! k = fl_mul (fl_sum (valid_spaxels source_spectrum mask_nddata k))
                          (true_divide ?cmax (?cnt k))"
    using k ln lc np_nansum_nth [OF shape k] count_valid_nth [OF shape k] by simp
  have le: "?cnt k \<le> ?cmax"
    using k by (intro Max_ge) auto
  have z: "?cnt k = 0 \<longrightarrow> fl_sum (valid_spaxels source_spectrum mask_nddata k) = Fin 0"
    by (simp add: fl_sum_Nil)
  have mean: "?flux ! k = fl_mul
                   (fl_div (fl_sum (valid_spaxels source_spectrum mask_nddata k))
                      (Fin (real (?cnt k)))) (Fin (real ?cmax))"
    using fk scaled_mean_eq [OF le z] by simp
  have nan: "valid_spaxels source_spectrum mask_nddata k = [] \<longrightarrow> ?flux ! k = NaN"
    using fk by (auto simp: fl_sum_Nil zero_count_flux)
  show ?thesis
    using res len fk mean nan by blast
qed

text \<open>
  The theorem on a cube of two spaxels and two wavelengths. In the first slice both
  spaxels are valid with values 2 and 4; in the second slice both are NaN. The flux is
  \<open>6\<close> for the first slice and NaN for the second.
\<close>

theorem masked_spectrum_flux_scaled_mean_witness:
  "masked_spectrum_flux
     \<lparr>nd_data = \<lparr>shape3 = (1, 2, 2),
                 at3 = (\<lambda>i j k. if k = 1 then NaN else if j = 0 then Fin 2 else Fin 4)\<rparr>,
      nd_mask = \<lparr>shape3 = (1, 2, 2), at3 = (\<lambda>i j k. False)\<rparr>\<rparr>
     \<lparr>dq_data = \<lparr>shape3 = (1, 2, 2), at3 = (\<lambda>i j k. 0)\<rparr>,
      dq_mask = \<lparr>shape3 = (1, 2, 2), at3 = (\<lambda>i j k. False)\<rparr>\<rparr>
   = Inr [Fin 6, NaN]"
proof -
  let ?s = "\<lparr>nd_data = \<lparr>shape3 = (1, 2, 2),
                 at3 = (\<lambda>i j k. if k = 1 then NaN else if j = 0 then Fin 2 else Fin (4::real))\<rparr>,
      nd_mask = \<lparr>shape3 = (1, 2, 2), at3 = (\<lambda>i j k. False)\<rparr>\<rparr>"
  let ?m = "\<lparr>dq_data = \<lparr>shape3 = (1, 2, 2), at3 = (\<lambda>i j k. 0 :: 64 word)\<rparr>,
      dq_mask = \<lparr>shape3 = (1, 2, 2), at3 = (\<lambda>i j k. False)\<rparr>\<rparr>"
  have sh: "shape3 (nd_data ?s) = (1, 2, 2)" by simp
  have v0: "valid_spaxels ?s ?m 0 = [Fin 2, Fin 4]"
    by code_simp
  have v1: "valid_spaxels ?s ?m 1 = []"
    by code_simp
  have two: "{..<2::nat} = {0, 1}" by auto
  have mx: "Max ((\<lambda>k'. length (valid_spaxels ?s ?m k')) ` {..<2}) = 2"
    unfolding two image_insert image_empty v0 v1 by simp
  from masked_spectrum_flux_scaled_mean [OF sh, of 0 ?m] obtain f0 where
    a: "masked_spectrum_flux ?s ?m = Inr f0" "length f0 = 2"
       "f0 ! 0 = fl_mul (fl_sum (valid_spaxels ?s ?m 0))
                   (true_divide (Max ((\<lambda>k'. length (valid_spaxels ?s ?m k')) ` {..<2}))
                      (length (valid_spaxels ?s ?m 0)))"
    by auto
  from masked_spectrum_flux_scaled_mean [OF sh, of 1 ?m] obtain f1 where
    b: "masked_spectrum_flux ?s ?m = Inr f1" "valid_spaxels ?s ?m 1 = [] \<longrightarrow> f1 ! 1 = NaN"
    by auto
  have same: "f1 = f0" using a(1) b(1) by simp
  have e0: "f0 ! 0 = Fin 6"
    using a(3) unfolding mx v0 by (simp add: fl_sum_def true_divide_def)
  have e1: "f0 ! 1 = NaN" using b(2) unfolding v1 same by simp
  have "f0 = [f0 ! 0, f0 ! 1]"
    using a(2) by (intro nth_equalityI) (auto simp: less_Suc_eq numeral_2_eq_2)
  then have "f0 = [Fin 6, NaN]" using e0 e1 by simp
  then show ?thesis using a(1) by simp
qed

section \<open>Properties of the collapsed images\<close>

lemma filled_sum:
  "fl_sum (map filled0 (map (\<lambda>k. (d k, m k)) ks)) = fl_sum (map d (filter (\<lambda>k. \<not> m k) ks))"
  by (induction ks) (simp_all add: filled0_def fl_sum_Cons fl_sum_Nil fl_add_zero_left)

lemma masked_sum_value:
  "fst (ma_sum_reduce (map (\<lambda>k. (d k, m k)) ks)) = fl_sum (map d (filter (\<lambda>k. \<not> m k) ks))"
  by (simp only: ma_sum_reduce_def fst_conv filled_sum)

lemma masked_sum_flag:
  "snd (ma_sum_reduce (map (\<lambda>k. (d k, m k)) ks)) = (filter (\<lambda>k. \<not> m k) ks = [])"
  by (simp add: ma_sum_reduce_def list_all_iff filter_empty_conv)

lemma masked_mean_value:
  "fst (ma_mean_reduce (map (\<lambda>k. (d k, m k)) ks))
     = fl_div (fl_sum (map d (filter (\<lambda>k. \<not> m k) ks)))
         (Fin (real (length (filter (\<lambda>k. \<not> m k) ks))))"
proof -
  have "length (filter (\<lambda>e. \<not> snd e) (map (\<lambda>k. (d k, m k)) ks))
        = length (filter (\<lambda>k. \<not> m k) ks)"
    by (induction ks) simp_all
  then show ?thesis
    by (simp only: ma_mean_reduce_def fst_conv filled_sum)
qed

lemma masked_mean_flag:
  "snd (ma_mean_reduce (map (\<lambda>k. (d k, m k)) ks)) = (filter (\<lambda>k. \<not> m k) ks = [])"
  by (simp add: ma_mean_reduce_def list_all_iff filter_empty_conv)

lemma collapse_explicit:
  assumes "shape3 (nd_data band) = (n0, n1, n2)"
  shows "collapse wcs_celestial 2 band
           = Inr \<lparr>img = \<lparr>shape2 = (n1, n0),
                          at2 = (\<lambda>j i. ma_sum_reduce
                                   (map (\<lambda>k. (at3 (nd_data band) i j k, at3 (nd_mask band) i j k))
                                      [0..<n2]))\<rparr>,
                   img_wcs = wcs_swapaxes wcs_celestial\<rparr>"
  using assms
  by (simp add: collapse_def collapse_with_def np_ma_sum_def reduce_axis_def Masked_def
      transpose2_def)

lemma collapse_mean_explicit:
  assumes "shape3 (nd_data band) = (n0, n1, n2)"
  shows "collapse_mean wcs_celestial 2 band
           = Inr \<lparr>img = \<lparr>shape2 = (n1, n0),
                          at2 = (\<lambda>j i. ma_mean_reduce
                                   (map (\<lambda>k. (at3 (nd_data band) i j k, at3 (nd_mask band) i j k))
                                      [0..<n2]))\<rparr>,
                   img_wcs = wcs_swapaxes wcs_celestial\<rparr>"
  using assms
  by (simp add: collapse_mean_def reduce_axis_def Masked_def transpose2_def)

text \<open>
  Claim C2. With the spectral axis last (dispersion axis 2), the collapsed image holds
  for the spatial pixel \<open>(i, j)\<close> of the band, at its transposed position \<open>(j, i)\<close>,
  the sum of the unmasked samples of that pixel and nothing else: the masked samples
  do not enter the value. The pixel is masked exactly when it has no unmasked sample;
  reading it then gives the \<open>masked\<close> marker, which is not the number zero, and gives
  the sum otherwise. The same holds for the mean reduction, whose value is the sum of
  the unmasked samples over their number.
\<close>

theorem collapse_excludes_masked:
  assumes shape: "shape3 (nd_data band) = (n0, n1, n2)" and i: "i < n0" and j: "j < n1"
  shows "(\<exists>image. collapse wcs_celestial 2 band = Inr image
            \<and> fst (at2 (img image) j i) = fl_sum (valid_samples band i j)
            \<and> snd (at2 (img image) j i) = (valid_samples band i j = [])
            \<and> (valid_samples band i j = [] \<longrightarrow>
                  ma_item (at2 (img image) j i) = None
                  \<and> ma_item (at2 (img image) j i) \<noteq> Some (Fin 0))
            \<and> (valid_samples band i j \<noteq> [] \<longrightarrow>
                  ma_item (at2 (img image) j i) = Some (fl_sum (valid_samples band i j))))
       \<and> (\<exists>image. collapse_mean wcs_celestial 2 band = Inr image
            \<and> fst (at2 (img image) j i)
                = fl_div (fl_sum (valid_samples band i j))
                    (Fin (real (length (valid_samples band i j))))
            \<and> snd (at2 (img image) j i) = (valid_samples band i j = [])
            \<and> (valid_samples band i j = [] \<longrightarrow>
                  ma_item (at2 (img image) j i) = None
                  \<and> ma_item (at2 (img image) j i) \<noteq> Some (Fin 0)))"
proof -
  let ?d = "\<lambda>k. at3 (nd_data band) i j k" and ?m = "\<lambda>k. at3 (nd_mask band) i j k"
  have vs: "valid_samples band i j = map ?d (filter (\<lambda>k. \<not> ?m k) [0..<n2])"
    using shape by (simp add: valid_samples_def)
  have emp: "(filter (\<lambda>k. \<not> ?m k) [0..<n2] = []) = (valid_samples band i j = [])"
    by (simp add: vs)
  let ?e = "ma_sum_reduce (map (\<lambda>k. (?d k, ?m k)) [0..<n2])"
  let ?g = "ma_mean_reduce (map (\<lambda>k. (?d k, ?m k)) [0..<n2])"
  have s1: "fst ?e = fl_sum (valid_samples band i j)"
    by (simp only: masked_sum_value vs)
  have s2: "snd ?e = (valid_samples band i j = [])"
    by (simp only: masked_sum_flag emp)
  have s3: "valid_samples band i j = [] \<longrightarrow> ma_item ?e = None \<and> ma_item ?e \<noteq> Some (Fin 0)"
    using s2 by (simp add: ma_item_def)
  have s4: "valid_samples band i j \<noteq> [] \<longrightarrow> ma_item ?e = Some (fl_sum (valid_samples band i j))"
    using s1 s2 by (simp add: ma_item_def)
  have m1: "fst ?g = fl_div (fl_sum (valid_samples band i j))
                       (Fin (real (length (valid_samples band i j))))"
    by (simp only: masked_mean_value vs length_map)
  have m2: "snd ?g = (valid_samples band i j = [])"
    by (simp only: masked_mean_flag emp)
  have m3: "valid_samples band i j = [] \<longrightarrow> ma_item ?g = None \<and> ma_item ?g \<noteq> Some (Fin 0)"
    using m2 by (simp add: ma_item_def)
  have sum_part: "\<exists>image. collapse wcs_celestial 2 band = Inr image
            \<and> fst (at2 (img image) j i) = fl_sum (valid_samples band i j)
            \<and> snd (at2 (img image) j i) = (valid_samples band i j = [])
            \<and> (valid_samples band i j = [] \<longrightarrow>
                  ma_item (at2 (img image) j i) = None
                  \<and> ma_item (at2 (img image) j i) \<noteq> Some (Fin 0))
            \<and> (valid_samples band i j \<noteq> [] \<longrightarrow>
                  ma_item (at2 (img image) j i) = Some (fl_sum (valid_samples band i j)))"
    using s1 s2 s3 s4 by (simp add: collapse_explicit [OF shape])
  have mean_part: "\<exists>image. collapse_mean wcs_celestial 2 band = Inr image
            \<and> fst (at2 (img image) j i)
                = fl_div (fl_sum (valid_samples band i j))
                    (Fin (real (length (valid_samples band i j))))
            \<and> snd (at2 (img image) j i) = (valid_samples band i j = [])
            \<and> (valid_samples band i j = [] \<longrightarrow>
                  ma_item (at2 (img image) j i) = None
                  \<and> ma_item (at2 (img image) j i) \<noteq> Some (Fin 0))"
    using m1 m2 m3 by (simp add: collapse_mean_explicit [OF shape])
  show ?thesis using sum_part mean_part by (rule conjI)
qed

text \<open>
  The theorem on a band of three by three spaxels and two wavelengths, every value
  \<open>3\<close>. The first row of spaxels is masked at both wavelengths, the last row at the
  first wavelength only. Pixel \<open>(0, 0)\<close> collapses to the \<open>masked\<close> marker, pixel
  \<open>(2, 2)\<close> to the one value that is left.
\<close>

theorem collapse_excludes_masked_witness:
  "\<exists>image. collapse (\<lambda>p. p) 2
              \<lparr>nd_data = \<lparr>shape3 = (3, 3, 2), at3 = (\<lambda>i j k. Fin 3)\<rparr>,
               nd_mask = \<lparr>shape3 = (3, 3, 2), at3 = (\<lambda>i j k. i = 0 \<or> (i = 2 \<and> k = 0))\<rparr>\<rparr>
            = Inr image
      \<and> ma_item (at2 (img image) 0 0) = None
      \<and> ma_item (at2 (img image) 2 2) = Some (Fin 3)"
proof -
  let ?band = "\<lparr>nd_data = \<lparr>shape3 = (3, 3, 2), at3 = (\<lambda>i j k. Fin (3::real))\<rparr>,
               nd_mask = \<lparr>shape3 = (3, 3, 2), at3 = (\<lambda>i j k. i = (0::nat) \<or> (i = 2 \<and> k = (0::nat)))\<rparr>\<rparr>"
  have sh: "shape3 (nd_data ?band) = (3, 3, 2)" by simp
  have v0: "valid_samples ?band 0 0 = []" by code_simp
  have v2: "valid_samples ?band 2 2 = [Fin 3]" by code_simp
  have s2: "fl_sum [Fin 3] = Fin 3" by (simp add: fl_sum_def)
  from collapse_excludes_masked [OF sh, of 0 0 "\<lambda>p. p"] obtain im0 where
    a: "collapse (\<lambda>p. p) 2 ?band = Inr im0"
       "valid_samples ?band 0 0 = [] \<longrightarrow> ma_item (at2 (img im0) 0 0) = None"
    by auto
  from collapse_excludes_masked [OF sh, of 2 2 "\<lambda>p. p"] obtain im2 where
    b: "collapse (\<lambda>p. p) 2 ?band = Inr im2"
       "valid_samples ?band 2 2 \<noteq> [] \<longrightarrow>
          ma_item (at2 (img im2) 2 2) = Some (fl_sum (valid_samples ?band 2 2))"
    by auto
  have same: "im2 = im0" using a(1) b(1) by simp
  have "ma_item (at2 (img im0) 0 0) = None" using a(2) unfolding v0 by simp
  moreover have "ma_item (at2 (img im0) 2 2) = Some (Fin 3)"
    using b(2) unfolding v2 s2 same by simp
  ultimately show ?thesis using a(1) by blast
qed

text \<open>
  Claim C9. With the spectral axis last, the image handed on by \<open>collapse\<close> is the
  masked sum over the spectral axis with its two spatial axes exchanged: its shape is
  the reversed spatial shape of the band and its element \<open>(j, i)\<close> is the reduction of
  spaxel \<open>(i, j)\<close>. It is paired with the celestial mapping with its axes exchanged as
  well, so pixel \<open>(j, i)\<close> of the image is mapped to the sky position that the
  original mapping gives pixel \<open>(i, j)\<close>, with the sky axes in exchanged order. Here a
  pixel position is the pair of array indices in the order of the array's axes.
\<close>

theorem collapse_swaps_axes:
  assumes shape: "shape3 (nd_data band) = (n0, n1, n2)" and i: "i < n0" and j: "j < n1"
  shows "\<exists>image collapsed_image.
           np_ma_sum (Masked band) 2 = Inr collapsed_image
           \<and> collapse wcs_celestial 2 band = Inr image
           \<and> shape2 collapsed_image = (n0, n1)
           \<and> shape2 (img image) = (n1, n0)
           \<and> at2 (img image) j i = at2 collapsed_image i j
           \<and> at2 collapsed_image i j
               = ma_sum_reduce
                   (map (\<lambda>k. (at3 (nd_data band) i j k, at3 (nd_mask band) i j k)) [0..<n2])
           \<and> img_wcs image = wcs_swapaxes wcs_celestial
           \<and> img_wcs image (real j, real i) = prod.swap (wcs_celestial (real i, real j))"
  using shape
  by (simp add: collapse_def collapse_with_def np_ma_sum_def reduce_axis_def Masked_def
      transpose2_def wcs_swapaxes_def)

text \<open>
  The theorem on a band of two by three spaxels with a mapping that doubles the first
  pixel coordinate: the image is three by two, and its pixel \<open>(2, 0)\<close> is mapped to
  \<open>(2, 0)\<close>, the sky position of the band's spaxel \<open>(0, 2)\<close> with the axes exchanged.
\<close>

theorem collapse_swaps_axes_witness:
  "\<exists>image collapsed_image.
     np_ma_sum (Masked \<lparr>nd_data = \<lparr>shape3 = (2, 3, 2), at3 = (\<lambda>i j k. Fin (real (i + j)))\<rparr>,
                        nd_mask = \<lparr>shape3 = (2, 3, 2), at3 = (\<lambda>i j k. False)\<rparr>\<rparr>) 2
       = Inr collapsed_image
     \<and> collapse (\<lambda>(p, q). (2 * p, q)) 2
              \<lparr>nd_data = \<lparr>shape3 = (2, 3, 2), at3 = (\<lambda>i j k. Fin (real (i + j)))\<rparr>,
               nd_mask = \<lparr>shape3 = (2, 3, 2), at3 = (\<lambda>i j k. False)\<rparr>\<rparr>
         = Inr image
     \<and> shape2 collapsed_image = (2, 3)
     \<and> shape2 (img image) = (3, 2)
     \<and> at2 (img image) 2 0 = at2 collapsed_image 0 2
     \<and> at2 collapsed_image 0 2 = (Fin 4, False)
     \<and> img_wcs image (2, 0) = (2, 0)"
proof -
  let ?band = "\<lparr>nd_data = \<lparr>shape3 = (2, 3, 2), at3 = (\<lambda>i j k. Fin (real (i + j)))\<rparr>,
               nd_mask = \<lparr>shape3 = (2, 3, 2), at3 = (\<lambda>i j k. False)\<rparr>\<rparr>"
  have sh: "shape3 (nd_data ?band) = (2, 3, 2)" by simp
  have i: "(0::nat) < 2" and j: "(2::nat) < 3" by simp_all
  have red: "ma_sum_reduce (map (\<lambda>k. (at3 (nd_data ?band) 0 2 k, at3 (nd_mask ?band) 0 2 k)) [0..<2])
             = (Fin 4, False)"
    by (simp add: ma_sum_reduce_def fl_sum_def filled0_def upt_rec)
  have sw: "prod.swap ((\<lambda>(p, q). (2 * p, q)) (real 0, real 2)) = (2, 0)" by simp
  have r: "(real 2, real 0) = (2, 0)" by simp
  show ?thesis
    using collapse_swaps_axes [OF sh i j, of "\<lambda>(p, q). (2 * p, q)"]
    unfolding red sw r by (elim exE conjE, intro exI conjI) assumption+
qed

section \<open>Properties of the centre of light\<close>










section \<open>Properties of the per-pixel slope fit\<close>

lemma slope_fit_loop_inv:
  assumes "slope_fit_loop lstsq wl pixels i (betas, dmask) = Inr (betas', dmask')"
  shows "length betas' = length betas \<and> length dmask' = length dmask
         \<and> (\<forall>n<i. betas' ! n = betas ! n \<and> dmask' ! n = dmask ! n)
         \<and> (\<forall>n<length pixels.
               (list_all snd (pixels ! n) \<longrightarrow>
                  betas' ! (i + n) = betas ! (i + n) \<and> dmask' ! (i + n) = dmask ! (i + n))
               \<and> (\<not> list_all snd (pixels ! n) \<longrightarrow>
                  i + n < length dmask \<and> \<not> dmask' ! (i + n)
                  \<and> (i + n < length betas \<longrightarrow>
                        pixel_fit lstsq wl (pixels ! n) = Inr (betas' ! (i + n)))))"
  using assms
proof (induction pixels arbitrary: i betas dmask)
  case Nil
  then show ?case by simp
next
  case (Cons p rest)
  show ?case
  proof (cases "list_all snd p")
    case True
    then have rec: "slope_fit_loop lstsq wl rest (Suc i) (betas, dmask) = Inr (betas', dmask')"
      using Cons.prems by simp
    note ih = Cons.IH [OF rec]
    have early: "\<forall>n<Suc i. betas' ! n = betas ! n \<and> dmask' ! n = dmask ! n"
      using ih by blast
    have later: "\<forall>n<length rest.
               (list_all snd (rest ! n) \<longrightarrow>
                  betas' ! (Suc i + n) = betas ! (Suc i + n)
                  \<and> dmask' ! (Suc i + n) = dmask ! (Suc i + n))
               \<and> (\<not> list_all snd (rest ! n) \<longrightarrow>
                  Suc i + n < length dmask \<and> \<not> dmask' ! (Suc i + n)
                  \<and> (Suc i + n < length betas \<longrightarrow>
                        pixel_fit lstsq wl (rest ! n) = Inr (betas' ! (Suc i + n))))"
      using ih by blast
    have each: "(list_all snd ((p # rest) ! n) \<longrightarrow>
                  betas' ! (i + n) = betas ! (i + n) \<and> dmask' ! (i + n) = dmask ! (i + n))
               \<and> (\<not> list_all snd ((p # rest) ! n) \<longrightarrow>
                  i + n < length dmask \<and> \<not> dmask' ! (i + n)
                  \<and> (i + n < length betas \<longrightarrow>
                        pixel_fit lstsq wl ((p # rest) ! n) = Inr (betas' ! (i + n))))"
      if n: "n < length (p # rest)" for n
    proof (cases n)
      case 0
      then show ?thesis using True early by simp
    next
      case (Suc m)
      then have "m < length rest" using n by simp
      then show ?thesis using later Suc by simp
    qed
    show ?thesis using ih early each by simp
  next
    case False
    then obtain beta where fit: "pixel_fit lstsq wl p = Inr beta"
      using Cons.prems by (cases "pixel_fit lstsq wl p") simp_all
    have idx: "i < length dmask"
      using Cons.prems False fit by (simp split: if_splits)
    have rec: "slope_fit_loop lstsq wl rest (Suc i) (betas[i := beta], dmask[i := False])
               = Inr (betas', dmask')"
      using Cons.prems False fit idx by simp
    note ih = Cons.IH [OF rec]
    have lens: "length betas' = length betas \<and> length dmask' = length dmask"
      using ih by simp
    have early': "\<forall>n<Suc i. betas' ! n = betas[i := beta] ! n \<and> dmask' ! n = dmask[i := False] ! n"
      using ih by blast
    have early: "\<forall>n<i. betas' ! n = betas ! n \<and> dmask' ! n = dmask ! n"
      using early' by simp
    have here: "\<not> dmask' ! i \<and> (i < length betas \<longrightarrow> betas' ! i = beta)"
      using early' idx by simp
    have later: "\<forall>n<length rest.
               (list_all snd (rest ! n) \<longrightarrow>
                  betas' ! (Suc i + n) = betas ! (Suc i + n)
                  \<and> dmask' ! (Suc i + n) = dmask ! (Suc i + n))
               \<and> (\<not> list_all snd (rest ! n) \<longrightarrow>
                  Suc i + n < length dmask \<and> \<not> dmask' ! (Suc i + n)
                  \<and> (Suc i + n < length betas \<longrightarrow>
                        pixel_fit lstsq wl (rest ! n) = Inr (betas' ! (Suc i + n))))"
      using ih by simp
    have each: "(list_all snd ((p # rest) ! n) \<longrightarrow>
                  betas' ! (i + n) = betas ! (i + n) \<and> dmask' ! (i + n) = dmask ! (i + n))
               \<and> (\<not> list_all snd ((p # rest) ! n) \<longrightarrow>
                  i + n < length dmask \<and> \<not> dmask' ! (i + n)
                  \<and> (i + n < length betas \<longrightarrow>
                        pixel_fit lstsq wl ((p # rest) ! n) = Inr (betas' ! (i + n))))"
      if n: "n < length (p # rest)" for n
    proof (cases n)
      case 0
      then show ?thesis using False here idx fit by simp
    next
      case (Suc m)
      then have "m < length rest" using n by simp
      then show ?thesis using later Suc by simp
    qed
    show ?thesis using lens early each by simp
  qed
qed

lemma slope_fit_loop_returns:
  assumes "\<forall>p\<in>set pixels. \<not> list_all snd p \<longrightarrow> (\<exists>beta. pixel_fit lstsq wl p = Inr beta)"
    and "i + length pixels \<le> length dmask"
  shows "\<exists>state. slope_fit_loop lstsq wl pixels i (betas, dmask) = Inr state"
  using assms
proof (induction pixels arbitrary: i betas dmask)
  case Nil
  then show ?case by simp
next
  case (Cons p rest)
  have rest_ok: "\<forall>p\<in>set rest. \<not> list_all snd p \<longrightarrow> (\<exists>beta. pixel_fit lstsq wl p = Inr beta)"
    using Cons.prems(1) by simp
  show ?case
  proof (cases "list_all snd p")
    case True
    have "Suc i + length rest \<le> length dmask" using Cons.prems(2) by simp
    from Cons.IH [OF rest_ok this] show ?thesis using True by simp
  next
    case False
    then obtain beta where fit: "pixel_fit lstsq wl p = Inr beta"
      using Cons.prems(1) by auto
    have idx: "i < length dmask" using Cons.prems(2) by simp
    have "Suc i + length rest \<le> length (dmask[i := False])" using Cons.prems(2) by simp
    from Cons.IH [OF rest_ok this, of "betas[i := beta]"] show ?thesis
      using False fit idx by simp
  qed
qed

text \<open>
  Whenever every fit that is attempted succeeds and \<open>distance_from_hotspot\<close> has one
  entry per pixel, the loop of cell 49 runs to its end.
\<close>

lemma slope_fit_returns:
  assumes "\<forall>p\<in>set pixels. \<not> list_all snd p \<longrightarrow> (\<exists>beta. pixel_fit lstsq wl p = Inr beta)"
    and "length distance_from_hotspot = length pixels"
  shows "\<exists>betas dmask. slope_fit lstsq wl pixels distance_from_hotspot = Inr (betas, dmask)"
proof -
  have "0 + length pixels \<le> length (replicate (length distance_from_hotspot) True)"
    using assms(2) by simp
  from slope_fit_loop_returns [OF assms(1) this] show ?thesis
    unfolding slope_fit_def by (metis surj_pair)
qed

text \<open>
  Claim C8. With one distance per pixel, the loop of cell 49 runs to its end whenever
  every fit it attempts succeeds, and after any run that reaches its end: a pixel
  whose samples in the sub-band are all masked keeps both coefficient entries at NaN,
  so its slope is not a zero, and keeps its distance entry masked. The distance entry
  of a pixel is unmasked exactly when the pixel has at least one valid sample, and in
  that case the coefficients of the pixel are those returned by the fit.
\<close>

theorem slope_fit_skips_masked_pixels:
  assumes len: "length distance_from_hotspot = length pixels"
    and i: "i < length pixels"
  shows "((\<forall>p\<in>set pixels. \<not> list_all snd p \<longrightarrow> (\<exists>beta. pixel_fit lstsq wavelengths p = Inr beta))
            \<longrightarrow> (\<exists>betas dmask.
                   slope_fit lstsq wavelengths pixels distance_from_hotspot = Inr (betas, dmask)))
         \<and> (\<forall>betas dmask.
               slope_fit lstsq wavelengths pixels distance_from_hotspot = Inr (betas, dmask) \<longrightarrow>
                 (list_all snd (pixels ! i) \<longrightarrow>
                    betas ! i = (NaN, NaN) \<and> fst (betas ! i) \<noteq> Fin 0 \<and> dmask ! i)
                 \<and> ((\<not> dmask ! i) = (\<exists>e\<in>set (pixels ! i). \<not> snd e))
                 \<and> ((\<exists>e\<in>set (pixels ! i). \<not> snd e) \<longrightarrow>
                       pixel_fit lstsq wavelengths (pixels ! i) = Inr (betas ! i)))"
proof (rule conjI [OF impI allI [OF allI [OF impI]]])
  assume "\<forall>p\<in>set pixels. \<not> list_all snd p \<longrightarrow> (\<exists>beta. pixel_fit lstsq wavelengths p = Inr beta)"
  then show "\<exists>betas dmask.
               slope_fit lstsq wavelengths pixels distance_from_hotspot = Inr (betas, dmask)"
    using len by (rule slope_fit_returns)
next
  fix betas dmask
  assume run: "slope_fit lstsq wavelengths pixels distance_from_hotspot = Inr (betas, dmask)"
  let ?b0 = "replicate (length pixels) (fl_mul NaN (Fin 0), fl_mul NaN (Fin 0))"
  let ?m0 = "replicate (length distance_from_hotspot) True"
  have run': "slope_fit_loop lstsq wavelengths pixels 0 (?b0, ?m0) = Inr (betas, dmask)"
    using run by (simp add: slope_fit_def)
  note inv = slope_fit_loop_inv [OF run']
  have masked: "list_all snd (pixels ! i) \<longrightarrow> betas ! i = ?b0 ! i \<and> dmask ! i = ?m0 ! i"
    using inv i by simp
  have fitted: "\<not> list_all snd (pixels ! i) \<longrightarrow>
                  \<not> dmask ! i \<and> pixel_fit lstsq wavelengths (pixels ! i) = Inr (betas ! i)"
    using inv i by simp
  have b0: "?b0 ! i = (NaN, NaN)" using i by simp
  have m0: "?m0 ! i" using i len by simp
  have ex: "(\<exists>e\<in>set (pixels ! i). \<not> snd e) = (\<not> list_all snd (pixels ! i))"
    by (simp add: list_all_iff)
  show "(list_all snd (pixels ! i) \<longrightarrow>
            betas ! i = (NaN, NaN) \<and> fst (betas ! i) \<noteq> Fin 0 \<and> dmask ! i)
         \<and> ((\<not> dmask ! i) = (\<exists>e\<in>set (pixels ! i). \<not> snd e))
         \<and> ((\<exists>e\<in>set (pixels ! i). \<not> snd e) \<longrightarrow>
               pixel_fit lstsq wavelengths (pixels ! i) = Inr (betas ! i))"
    unfolding ex using masked fitted b0 m0 by auto
qed

text \<open>
  The theorem on two pixels with one sample each, the first masked, the second valid,
  with a solver that always answers \<open>(7, 9)\<close>: the first pixel stays at NaN with its
  distance masked, the second gets the solver's answer.
\<close>

theorem slope_fit_skips_masked_pixels_witness:
  "slope_fit (\<lambda>X y. Inr (Fin 7, Fin 9)) [8] [[(NaN, True)], [(Fin 5, False)]] [0, 2]
     = Inr ([(NaN, NaN), (Fin 7, Fin 9)], [True, False])
   \<and> ((\<not> [True, False] ! 0) = (\<exists>e\<in>set ([[(NaN, True)], [(Fin 5, False)]] ! 0). \<not> snd e))
   \<and> [(NaN, NaN), (Fin 7, Fin 9)] ! 0 = (NaN, NaN)"
proof -
  have run: "slope_fit (\<lambda>X y. Inr (Fin 7, Fin 9)) [8] [[(NaN, True)], [(Fin 5, False)]] [0, 2]
             = Inr ([(NaN, NaN), (Fin 7, Fin 9)], [True, False])"
    by (simp add: slope_fit_def pixel_fit_def)
  have len: "length [0, 2 :: real] = length [[(NaN, True)], [(Fin 5, False)]]" by simp
  have i: "0 < length [[(NaN, True)], [(Fin 5, False)]]" by simp
  from slope_fit_skips_masked_pixels
    [OF len i, of "\<lambda>X y. Inr (Fin 7, Fin 9)" "[8]", THEN conjunct2, rule_format, OF run]
  show ?thesis using run by simp
qed









section \<open>Properties of the model fit\<close>

lemma component_labels_eq: "component_labels = [''BB0'', ''BB1'', ''BB2'']"
  by code_simp

lemma component_models_eq: "component_models = [''BlackBody'', ''BlackBody'', ''BlackBody'']"
  by (simp add: component_models_def n_components_def numeral_3_eq_3)

lemma list3: "length xs = 3 \<Longrightarrow> \<exists>a b c. xs = [a, b, c]"
  by (auto simp: numeral_3_eq_3 length_Suc_conv)

lemma blackbody_shaped_form:
  assumes "blackbody_shaped c"
  shows "\<exists>p q. c = \<lparr>comp_model = ''BlackBody'',
                      comp_params = [(''temperature'', p), (''scale'', q)]\<rparr>"
proof -
  from assms have m: "comp_model c = ''BlackBody''"
    and n: "map fst (comp_params c) = [''temperature'', ''scale'']"
    by (simp_all add: blackbody_shaped_def)
  from n obtain p q where "comp_params c = [(''temperature'', p), (''scale'', q)]"
    by (cases "comp_params c") (auto simp: map_eq_Cons_conv)
  with m have "c = \<lparr>comp_model = ''BlackBody'',
                     comp_params = [(''temperature'', p), (''scale'', q)]\<rparr>"
    by (cases c) simp
  then show ?thesis by blast
qed

lemma configure_fresh:
  "configure init [t0, t1, t2] [s0, s1, s2] []
     = Inr [(''BB0'', configured t0 s0), (''BB1'', configured t1 s1), (''BB2'', configured t2 s2)]"
  by (simp add: configure_def Table_def component_models_eq component_labels_eq
      create_model_component_def model_parameters_def set_model_component_def
      fixed_parameters_def configured_def)

lemma configure_again:
  "configure init [t0, t1, t2] [s0, s1, s2]
     [(''BB0'', \<lparr>comp_model = ''BlackBody'', comp_params = [(''temperature'', p0), (''scale'', q0)]\<rparr>),
      (''BB1'', \<lparr>comp_model = ''BlackBody'', comp_params = [(''temperature'', p1), (''scale'', q1)]\<rparr>),
      (''BB2'', \<lparr>comp_model = ''BlackBody'', comp_params = [(''temperature'', p2), (''scale'', q2)]\<rparr>)]
     = Inr [(''BB0'', configured t0 s0), (''BB1'', configured t1 s1), (''BB2'', configured t2 s2)]"
  by (simp add: configure_def Table_def component_models_eq component_labels_eq
      set_model_component_def fixed_parameters_def configured_def)

lemma configure_ready:
  assumes "plugin_ready st0"
  shows "configure init [t0, t1, t2] [s0, s1, s2] st0
     = Inr [(''BB0'', configured t0 s0), (''BB1'', configured t1 s1), (''BB2'', configured t2 s2)]"
proof (cases "st0 = []")
  case True
  then show ?thesis by (simp only: configure_fresh)
next
  case False
  with assms have l: "map fst st0 = [''BB0'', ''BB1'', ''BB2'']"
    and sh: "list_all (\<lambda>(l, c). blackbody_shaped c) st0"
    by (simp_all add: plugin_ready_def component_labels_eq)
  from l obtain c0 c1 c2 where st0: "st0 = [(''BB0'', c0), (''BB1'', c1), (''BB2'', c2)]"
    by (auto simp: map_eq_Cons_conv)
  from sh st0 have "blackbody_shaped c0" "blackbody_shaped c1" "blackbody_shaped c2"
    by simp_all
  then obtain p0 q0 p1 q1 p2 q2 where
    "c0 = \<lparr>comp_model = ''BlackBody'', comp_params = [(''temperature'', p0), (''scale'', q0)]\<rparr>"
    "c1 = \<lparr>comp_model = ''BlackBody'', comp_params = [(''temperature'', p1), (''scale'', q1)]\<rparr>"
    "c2 = \<lparr>comp_model = ''BlackBody'', comp_params = [(''temperature'', p2), (''scale'', q2)]\<rparr>"
    using blackbody_shaped_form by metis
  then show ?thesis
    unfolding st0 by (simp only: configure_again)
qed

lemma calculate_fit_configured:
  "calculate_fit opt
     [(''BB0'', configured t0 s0), (''BB1'', configured t1 s1), (''BB2'', configured t2 s2)]
   = [(''BB0'', configured t0 (opt ''BB0'' ''scale'')),
      (''BB1'', configured t1 (opt ''BB1'' ''scale'')),
      (''BB2'', configured t2 (opt ''BB2'' ''scale''))]"
  by (simp add: calculate_fit_def configured_def)

lemma param_of_configured:
  "param_of (configured t s) ''temperature'' = Some \<lparr>p_value = t, p_fixed = True\<rparr>"
  "param_of (configured t s) ''scale'' = Some \<lparr>p_value = s, p_fixed = False\<rparr>"
  "map fst (comp_params (configured t s)) = [''temperature'', ''scale'']"
  "comp_model (configured t s) = ''BlackBody''"
  by (simp_all add: param_of_def configured_def)

text \<open>
  Claim C3. Cell 13, run on a plugin that is fresh or was left by an earlier run of the
  cell, with three temperatures and three scales: the plugin then holds exactly the
  components \<open>BB0\<close>, \<open>BB1\<close>, \<open>BB2\<close>, each a blackbody whose only parameters are
  \<open>temperature\<close>, marked fixed, and \<open>scale\<close>, left free, with the values of the table.
  The fit result has the same three components; in each the temperature is still fixed
  and equal to the initial temperature, and the scale is the value the optimiser found.
\<close>

theorem fit_keeps_fixed_temperatures:
  assumes nt: "length temperatures = 3" and ns: "length expected_scales = 3"
    and ready: "plugin_ready st0"
  shows "\<exists>st result.
           configure init temperatures expected_scales st0 = Inr st
           \<and> fit_composite_model init opt temperatures expected_scales st0 = Inr result
           \<and> result = calculate_fit opt st
           \<and> map fst st = component_labels
           \<and> map fst result = component_labels
           \<and> (\<forall>i<3. comp_model (snd (st ! i)) = ''BlackBody''
                  \<and> map fst (comp_params (snd (st ! i))) = [''temperature'', ''scale'']
                  \<and> param_of (snd (st ! i)) ''temperature''
                      = Some \<lparr>p_value = temperatures ! i, p_fixed = True\<rparr>
                  \<and> param_of (snd (st ! i)) ''scale''
                      = Some \<lparr>p_value = expected_scales ! i, p_fixed = False\<rparr>)
           \<and> (\<forall>i<3. map fst (comp_params (snd (result ! i))) = [''temperature'', ''scale'']
                  \<and> param_of (snd (result ! i)) ''temperature''
                      = Some \<lparr>p_value = temperatures ! i, p_fixed = True\<rparr>
                  \<and> param_of (snd (result ! i)) ''scale''
                      = Some \<lparr>p_value = opt (component_labels ! i) ''scale'', p_fixed = False\<rparr>)"
proof -
  from list3 [OF nt] obtain t0 t1 t2 where t: "temperatures = [t0, t1, t2]" by blast
  from list3 [OF ns] obtain s0 s1 s2 where s: "expected_scales = [s0, s1, s2]" by blast
  let ?st = "[(''BB0'', configured t0 s0), (''BB1'', configured t1 s1), (''BB2'', configured t2 s2)]"
  let ?res = "[(''BB0'', configured t0 (opt ''BB0'' ''scale'')),
               (''BB1'', configured t1 (opt ''BB1'' ''scale'')),
               (''BB2'', configured t2 (opt ''BB2'' ''scale''))]"
  have c: "configure init temperatures expected_scales st0 = Inr ?st"
    unfolding t s by (rule configure_ready [OF ready])
  have r: "calculate_fit opt ?st = ?res" by (rule calculate_fit_configured)
  have f: "fit_composite_model init opt temperatures expected_scales st0 = Inr ?res"
    by (simp only: fit_composite_model_def c sum.case r)
  have l1: "map fst ?st = component_labels" by (simp add: component_labels_eq)
  have l2: "map fst ?res = component_labels" by (simp add: component_labels_eq)
  have three: "i < 3 \<longleftrightarrow> i = 0 \<or> i = 1 \<or> i = 2" for i :: nat by auto
  have a: "\<forall>i<3. comp_model (snd (?st ! i)) = ''BlackBody''
                  \<and> map fst (comp_params (snd (?st ! i))) = [''temperature'', ''scale'']
                  \<and> param_of (snd (?st ! i)) ''temperature''
                      = Some \<lparr>p_value = temperatures ! i, p_fixed = True\<rparr>
                  \<and> param_of (snd (?st ! i)) ''scale''
                      = Some \<lparr>p_value = expected_scales ! i, p_fixed = False\<rparr>"
    unfolding t s by (auto simp: three param_of_configured)
  have b: "\<forall>i<3. map fst (comp_params (snd (?res ! i))) = [''temperature'', ''scale'']
                  \<and> param_of (snd (?res ! i)) ''temperature''
                      = Some \<lparr>p_value = temperatures ! i, p_fixed = True\<rparr>
                  \<and> param_of (snd (?res ! i)) ''scale''
                      = Some \<lparr>p_value = opt (component_labels ! i) ''scale'', p_fixed = False\<rparr>"
    unfolding t s by (auto simp: three param_of_configured component_labels_eq)
  show ?thesis
    using c f r [symmetric] l1 l2 a b by blast
qed

text \<open>
  The theorem on a fresh plugin with temperatures 120, 450 and 5777 and an optimiser
  that sets every free parameter to 2: the temperatures come back unchanged and the
  scales are 2.
\<close>

theorem fit_keeps_fixed_temperatures_witness:
  "fit_composite_model (\<lambda>n. 0) (\<lambda>l n. 2) [120, 450, 5777] [3, 4, 5] []
     = Inr [(''BB0'', configured 120 2), (''BB1'', configured 450 2), (''BB2'', configured 5777 2)]
   \<and> plugin_ready []"
proof -
  have nt: "length [120, 450, 5777 :: real] = 3" and ns: "length [3, 4, 5 :: real] = 3"
    by simp_all
  have ready: "plugin_ready []" by (simp add: plugin_ready_def)
  from fit_keeps_fixed_temperatures [OF nt ns ready, of "\<lambda>n. 0" "\<lambda>l n. 2"]
  obtain st where
    c: "configure (\<lambda>n. 0) [120, 450, 5777] [3, 4, 5] [] = Inr st"
    and f: "fit_composite_model (\<lambda>n. 0) (\<lambda>l n. 2) [120, 450, 5777] [3, 4, 5] []
              = Inr (calculate_fit (\<lambda>l n. 2) st)"
    by auto
  have "st = [(''BB0'', configured 120 3), (''BB1'', configured 450 4), (''BB2'', configured 5777 5)]"
    using c by (simp add: configure_fresh)
  then show ?thesis
    using f ready by (simp add: calculate_fit_configured)
qed

end
